theory Spec2Isabelle
  imports Complex_Main "HOL-Library.AList"
begin

section \<open>Rendering of numbers inside template strings\<close>

text \<open>
  The program builds identifiers and table keys with JavaScript template strings
  (\<^verbatim>\<open>`goal_${Date.now()}`\<close>, \<^verbatim>\<open>`${dx},${dz}`\<close>). An integral number is rendered in
  decimal, with a leading minus sign when negative (numbers of 22 digits and more, which
  JavaScript renders with an exponent, do not occur as clock readings or coordinates).
\<close>

definition digit_char :: "nat \<Rightarrow> char" where
  "digit_char n = ''0123456789'' ! n"

fun show_nat :: "nat \<Rightarrow> string" where
  "show_nat n = (if n < 10 then [digit_char n] else show_nat (n div 10) @ [digit_char (n mod 10)])"

declare show_nat.simps [simp del]

definition show_int :: "int \<Rightarrow> string" where
  "show_int i = (if i < 0 then ''-'' @ show_nat (nat (- i)) else show_nat (nat i))"

section \<open>Goal tracker (src/agent/goal_system.js)\<close>

text \<open>
  A goal is a JavaScript object. The main goal and the subgoals do not have the same
  fields: a field the constructor of the object does not write is \<open>None\<close> here
  (\<^verbatim>\<open>undefined\<close> in the program). Progress is a JavaScript number, modelled as a real
  (rounding of doubles, \<^verbatim>\<open>NaN\<close> and the infinities are outside the model). The clock
  \<^verbatim>\<open>Date.now()\<close> is a parameter \<open>now\<close> of every operation that reads it; an
  operation that reads it several times gets the same reading each time. The field
  \<^verbatim>\<open>subGoals\<close> of the main goal object and \<^verbatim>\<open>contextualMemory\<close> of the tracker are
  written once and never read; they are left out.
\<close>

datatype goal_status = Active | Pending | Completed | Failed | NeedsRevision

record goal =
  gid :: string
  description :: string
  status :: goal_status
  progress :: real
  attempts :: nat
  prerequisites :: "string list option"
  dependencies :: "string list option"
  lastAttempt :: "(nat \<times> string) option"
  startTime :: "nat option"
  created :: "nat option"
  lastUpdate :: "nat option"
  goal_context :: "string \<rightharpoonup> string"
  needsStrategyRevision :: bool
  completedAt :: "nat option"
  failedAt :: "nat option"
  failureReason :: "string option"

record adaptation =
  goalId :: string
  adaptTimestamp :: nat
  previousAttempts :: nat
  adaptReason :: string

record goal_system =
  mainGoal :: "goal option"
  subGoals :: "goal list"
  completedGoals :: "goal list"
  failedGoals :: "goal list"
  strategyAdaptations :: "adaptation list"

datatype js_error = TypeError string | Error string

definition init_goal_system :: goal_system where
  "init_goal_system =
     \<lparr>mainGoal = None, subGoals = [], completedGoals = [], failedGoals = [],
      strategyAdaptations = []\<rparr>"

definition setMainGoal :: "string \<Rightarrow> (string \<rightharpoonup> string) \<Rightarrow> nat \<Rightarrow> goal_system \<Rightarrow> string \<times> goal_system" where
  "setMainGoal goal_text ctx now s =
     (let g = \<lparr>gid = ''goal_'' @ show_nat now, description = goal_text, status = Active,
                progress = 0, attempts = 0, prerequisites = None, dependencies = None,
                lastAttempt = None, startTime = Some now, created = None,
                lastUpdate = Some now, goal_context = ctx, needsStrategyRevision = False,
                completedAt = None, failedAt = None, failureReason = None\<rparr>
      in (gid g, s\<lparr>mainGoal := Some g\<rparr>))"

definition addSubGoal :: "string \<Rightarrow> string list \<Rightarrow> string list \<Rightarrow> nat \<Rightarrow> goal_system \<Rightarrow> string \<times> goal_system" where
  "addSubGoal descr prereqs deps now s =
     (let subGoal =
            \<lparr>gid = ''subgoal_'' @ show_nat now @ ''_'' @ show_nat (length (subGoals s)),
             description = descr, status = Pending, progress = 0, attempts = 0,
             prerequisites = Some prereqs, dependencies = Some deps, lastAttempt = None,
             startTime = None, created = Some now, lastUpdate = None, goal_context = Map.empty,
             needsStrategyRevision = False, completedAt = None, failedAt = None,
             failureReason = None\<rparr>
      in (gid subGoal, s\<lparr>subGoals := subGoals s @ [subGoal]\<rparr>))"

text \<open>
  \<^verbatim>\<open>findGoal\<close> returns the main goal when its id matches, otherwise the first subgoal
  with that id (\<^verbatim>\<open>Array.prototype.find\<close>).
\<close>

definition findGoal :: "goal_system \<Rightarrow> string \<Rightarrow> goal option" where
  "findGoal s g =
     (case mainGoal s of
        Some m \<Rightarrow> if gid m = g then Some m else find (\<lambda>x. gid x = g) (subGoals s)
      | None \<Rightarrow> find (\<lambda>x. gid x = g) (subGoals s))"

text \<open>
  The callers of \<^verbatim>\<open>findGoal\<close> assign to fields of the object it returns. \<open>storeGoal\<close> is
  that assignment through the reference: the object \<^verbatim>\<open>findGoal\<close> found is replaced by
  its new value, in the place where it was found.
\<close>

fun replace_first :: "('a \<Rightarrow> bool) \<Rightarrow> 'a \<Rightarrow> 'a list \<Rightarrow> 'a list" where
  "replace_first P v [] = []"
| "replace_first P v (x # xs) = (if P x then v # xs else x # replace_first P v xs)"

definition storeGoal :: "string \<Rightarrow> goal \<Rightarrow> goal_system \<Rightarrow> goal_system" where
  "storeGoal g v s =
     (case mainGoal s of
        Some m \<Rightarrow>
          if gid m = g then s\<lparr>mainGoal := Some v\<rparr>
          else s\<lparr>subGoals := replace_first (\<lambda>x. gid x = g) v (subGoals s)\<rparr>
      | None \<Rightarrow> s\<lparr>subGoals := replace_first (\<lambda>x. gid x = g) v (subGoals s)\<rparr>)"

definition subgoal_contribution :: "goal \<Rightarrow> real" where
  "subgoal_contribution g = (if status g = Completed then 100 else progress g)"

definition updateMainGoalProgress :: "goal_system \<Rightarrow> goal_system" where
  "updateMainGoalProgress s =
     (case mainGoal s of
        None \<Rightarrow> s
      | Some m \<Rightarrow>
          let activeSubGoals = filter (\<lambda>g. status g \<noteq> Completed \<and> status g \<noteq> Failed) (subGoals s)
          in if length activeSubGoals = 0
             then s\<lparr>mainGoal := Some (m\<lparr>progress := (if length (subGoals s) > 0 then 100 else progress m)\<rparr>)\<rparr>
             else
               let totalProgress = foldl (\<lambda>sum g. sum + subgoal_contribution g) 0 (subGoals s)
               in s\<lparr>mainGoal := Some (m\<lparr>progress := of_int \<lfloor>totalProgress / real (length (subGoals s))\<rfloor>\<rparr>)\<rparr>)"

definition updateGoalProgress :: "string \<Rightarrow> real \<Rightarrow> (string \<rightharpoonup> string) \<Rightarrow> nat \<Rightarrow> goal_system \<Rightarrow> goal_system" where
  "updateGoalProgress g p ctx now s =
     (case findGoal s g of
        None \<Rightarrow> s
      | Some goal \<Rightarrow>
          let s1 = storeGoal g (goal\<lparr>progress := p, lastUpdate := Some now, goal_context := goal_context goal ++ ctx\<rparr>) s
          in (case mainGoal s1 of
                Some m \<Rightarrow> if g \<noteq> gid m then updateMainGoalProgress s1 else s1
              | None \<Rightarrow> s1))"

text \<open>
  A failure reason is a string; a call without a reason is the call with the empty
  string, which \<^verbatim>\<open>reason || 'Too many failures'\<close> replaces by the default as it does
  \<^verbatim>\<open>undefined\<close>.
\<close>

definition adaptStrategy :: "goal \<Rightarrow> nat \<Rightarrow> goal_system \<Rightarrow> goal_system" where
  "adaptStrategy goal now s =
     (let adaptation =
            \<lparr>goalId = gid goal, adaptTimestamp = now, previousAttempts = attempts goal,
             adaptReason = (case lastAttempt goal of
                              Some (t, r) \<Rightarrow> if r = [] then ''Too many failures'' else r
                            | None \<Rightarrow> ''Too many failures'')\<rparr>;
          s1 = s\<lparr>strategyAdaptations := strategyAdaptations s @ [adaptation]\<rparr>
      in storeGoal (gid goal) (goal\<lparr>needsStrategyRevision := True, status := NeedsRevision\<rparr>) s1)"

definition recordFailedAttempt :: "string \<Rightarrow> string \<Rightarrow> nat \<Rightarrow> goal_system \<Rightarrow> goal_system" where
  "recordFailedAttempt g reason now s =
     (case findGoal s g of
        None \<Rightarrow> s
      | Some goal \<Rightarrow>
          let goal1 = goal\<lparr>attempts := attempts goal + 1, lastAttempt := Some (now, reason)\<rparr>;
              s1 = storeGoal g goal1 s
          in if attempts goal1 > 3 then adaptStrategy goal1 now s1 else s1)"

definition remove_if_subgoal :: "string \<Rightarrow> goal_system \<Rightarrow> goal_system" where
  "remove_if_subgoal g s =
     (if Some g \<noteq> map_option gid (mainGoal s)
      then s\<lparr>subGoals := filter (\<lambda>x. gid x \<noteq> g) (subGoals s)\<rparr>
      else s)"

definition completeGoal :: "string \<Rightarrow> nat \<Rightarrow> goal_system \<Rightarrow> goal_system" where
  "completeGoal g now s =
     (case findGoal s g of
        None \<Rightarrow> s
      | Some goal \<Rightarrow>
          let goal1 = goal\<lparr>status := Completed, completedAt := Some now\<rparr>;
              s1 = storeGoal g goal1 s;
              s2 = s1\<lparr>completedGoals := completedGoals s1 @ [goal1]\<rparr>
          in updateMainGoalProgress (remove_if_subgoal g s2))"

definition failGoal :: "string \<Rightarrow> string \<Rightarrow> nat \<Rightarrow> goal_system \<Rightarrow> goal_system" where
  "failGoal g reason now s =
     (case findGoal s g of
        None \<Rightarrow> s
      | Some goal \<Rightarrow>
          let goal1 = goal\<lparr>status := Failed, failedAt := Some now, failureReason := Some reason\<rparr>;
              s1 = storeGoal g goal1 s;
              s2 = s1\<lparr>failedGoals := failedGoals s1 @ [goal1]\<rparr>
          in updateMainGoalProgress (remove_if_subgoal g s2))"

text \<open>
  \<^verbatim>\<open>getPendingPrerequisites\<close> and \<^verbatim>\<open>canStartGoal\<close> call \<^verbatim>\<open>.filter\<close> on the goal's
  \<^verbatim>\<open>prerequisites\<close> and \<^verbatim>\<open>dependencies\<close>. On an object without these fields (the main
  goal) the call is made on \<^verbatim>\<open>undefined\<close> and raises a TypeError.
\<close>

definition getPendingPrerequisites :: "goal_system \<Rightarrow> string \<Rightarrow> js_error + string list" where
  "getPendingPrerequisites s g =
     (case findGoal s g of
        None \<Rightarrow> Inr []
      | Some goal \<Rightarrow>
          (case prerequisites goal of
             None \<Rightarrow> Inl (TypeError ''prerequisites is undefined'')
           | Some ps \<Rightarrow>
               Inr (filter (\<lambda>preReqId.
                      case findGoal s preReqId of
                        None \<Rightarrow> False
                      | Some preReqGoal \<Rightarrow> status preReqGoal \<noteq> Completed) ps)))"

definition canStartGoal :: "goal_system \<Rightarrow> string \<Rightarrow> js_error + bool" where
  "canStartGoal s g =
     (case findGoal s g of
        None \<Rightarrow> Inr False
      | Some goal \<Rightarrow>
          (case getPendingPrerequisites s g of
             Inl e \<Rightarrow> Inl e
           | Inr pendingPrereqs \<Rightarrow>
               if length pendingPrereqs > 0 then Inr False
               else
                 (case dependencies goal of
                    None \<Rightarrow> Inl (TypeError ''dependencies is undefined'')
                  | Some ds \<Rightarrow>
                      let unmetDependencies =
                            filter (\<lambda>depId.
                              case findGoal s depId of
                                None \<Rightarrow> True
                              | Some depGoal \<Rightarrow> status depGoal \<noteq> Completed) ds
                      in Inr (length unmetDependencies = 0))))"

subsection \<open>Sequences of tracker operations\<close>

text \<open>
  The state-changing operations of the tracker's interface, each with the arguments the
  caller passes and the clock reading of the call. \<^verbatim>\<open>canStartGoal\<close> and the summary
  projection do not change the tracker and are not part of a run.
\<close>

datatype goal_op =
    SetMainGoal string "string \<rightharpoonup> string" nat
  | AddSubGoal string "string list" "string list" nat
  | UpdateGoalProgress string real "string \<rightharpoonup> string" nat
  | RecordFailedAttempt string string nat
  | CompleteGoal string nat
  | FailGoal string string nat

fun apply_goal_op :: "goal_op \<Rightarrow> goal_system \<Rightarrow> goal_system" where
  "apply_goal_op (SetMainGoal d c now) s = snd (setMainGoal d c now s)"
| "apply_goal_op (AddSubGoal d ps ds now) s = snd (addSubGoal d ps ds now s)"
| "apply_goal_op (UpdateGoalProgress g p c now) s = updateGoalProgress g p c now s"
| "apply_goal_op (RecordFailedAttempt g r now) s = recordFailedAttempt g r now s"
| "apply_goal_op (CompleteGoal g now) s = completeGoal g now s"
| "apply_goal_op (FailGoal g r now) s = failGoal g r now s"

fun run_goal_ops :: "goal_op list \<Rightarrow> goal_system \<Rightarrow> goal_system" where
  "run_goal_ops [] s = s"
| "run_goal_ops (x # xs) s = run_goal_ops xs (apply_goal_op x s)"

text \<open>The progress argument of a call of \<^verbatim>\<open>updateGoalProgress\<close> lies within 0 and 100.\<close>

fun progress_arg_ok :: "goal_op \<Rightarrow> bool" where
  "progress_arg_ok (UpdateGoalProgress g p c now) = (0 \<le> p \<and> p \<le> 100)"
| "progress_arg_ok _ = True"

definition in_range :: "goal \<Rightarrow> bool" where
  "in_range g = (0 \<le> progress g \<and> progress g \<le> 100)"

text \<open>
  Every goal object the tracker holds has its progress within 0 and 100: the main goal,
  the subgoals, and the copies kept in the two history lists.
\<close>

definition all_in_range :: "goal_system \<Rightarrow> bool" where
  "all_in_range s =
     ((case mainGoal s of None \<Rightarrow> True | Some m \<Rightarrow> in_range m)
      \<and> list_all in_range (subGoals s)
      \<and> list_all in_range (completedGoals s)
      \<and> list_all in_range (failedGoals s))"

subsection \<open>Concrete trackers\<close>

text \<open>A main goal and two subgoals, created at clock readings 1000, 1001 and 1002.\<close>

definition scenario_tracker :: goal_system where
  "scenario_tracker =
     snd (addSubGoal ''smelt iron'' [] [] 1002
       (snd (addSubGoal ''mine iron'' [] [] 1001
         (snd (setMainGoal ''make iron pickaxe'' Map.empty 1000 init_goal_system)))))"

text \<open>The same tracker after the first subgoal reported progress 40 and the second 60.\<close>

definition scenario_40_60 :: goal_system where
  "scenario_40_60 =
     updateGoalProgress ''subgoal_1002_1'' 60 Map.empty 1004
       (updateGoalProgress ''subgoal_1001_0'' 40 Map.empty 1003 scenario_tracker)"



definition clamp_probe_ops :: "goal_op list" where
  "clamp_probe_ops =
     [SetMainGoal ''build a base'' Map.empty 1000,
      AddSubGoal ''collect logs'' [] [] 1001,
      UpdateGoalProgress ''subgoal_1001_0'' 150 Map.empty 1002]"

definition bounded_ops :: "goal_op list" where
  "bounded_ops =
     [SetMainGoal ''build a base'' Map.empty 1000,
      AddSubGoal ''collect logs'' [] [] 1001,
      AddSubGoal ''craft table'' [] [] 1002,
      UpdateGoalProgress ''subgoal_1001_0'' 75 Map.empty 1003,
      UpdateGoalProgress ''subgoal_1002_1'' 100 Map.empty 1004,
      RecordFailedAttempt ''subgoal_1002_1'' ''no wood'' 1005,
      CompleteGoal ''subgoal_1001_0'' 1006,
      FailGoal ''subgoal_1002_1'' ''gave up'' 1007]"

section \<open>The world as the agent queries it\<close>

text \<open>
  Positions are \<^verbatim>\<open>Vec3\<close> objects with numeric fields \<^verbatim>\<open>x\<close>, \<^verbatim>\<open>y\<close>, \<^verbatim>\<open>z\<close>; numbers are
  modelled as reals. A block, as \<^verbatim>\<open>bot.blockAt\<close> returns it, has a name and its own
  position; \<^verbatim>\<open>blockAt\<close> returns \<^verbatim>\<open>null\<close> (here \<open>None\<close>) where the world has nothing
  loaded. The world query itself is a collaborator outside the repository: it is a
  parameter of the functions that call it.
\<close>

record vec3 =
  vx :: real
  vy :: real
  vz :: real

record block =
  block_name :: string
  block_position :: vec3

type_synonym block_query = "vec3 \<Rightarrow> block option"

text \<open>\<^verbatim>\<open>Math.sqrt(dx * dx + dy * dy + dz * dz)\<close> on two \<^verbatim>\<open>Vec3\<close> positions.\<close>

definition calculateDistance :: "vec3 \<Rightarrow> vec3 \<Rightarrow> real" where
  "calculateDistance pos1 pos2 =
     (let dx = vx pos1 - vx pos2; dy = vy pos1 - vy pos2; dz = vz pos1 - vz pos2
      in sqrt (dx * dx + dy * dy + dz * dz))"

text \<open>\<^verbatim>\<open>String.prototype.includes\<close>: the needle occurs as a contiguous part.\<close>

fun starts_with :: "string \<Rightarrow> string \<Rightarrow> bool" where
  "starts_with hay [] = True"
| "starts_with [] (c # cs) = False"
| "starts_with (h # hs) (c # cs) = (h = c \<and> starts_with hs cs)"

fun includes_str :: "string \<Rightarrow> string \<Rightarrow> bool" where
  "includes_str [] needle = (needle = [])"
| "includes_str (h # hs) needle = (starts_with (h # hs) needle \<or> includes_str hs needle)"


section \<open>Spatial memory (src/agent/enhanced_memory.js)\<close>

text \<open>
  The memory bank holds four tables, each a JavaScript object used as a dictionary from
  names to entries, the current spatial context and the time of its last update. A
  table is an association list in insertion order (the order \<^verbatim>\<open>Object.entries\<close>
  enumerates string keys in); writing a key that exists replaces its entry in place,
  writing a new key appends it. Landmark and place positions are arrays of three
  numbers.
\<close>

type_synonym xyz = "real \<times> real \<times> real"

record place =
  place_position :: xyz
  place_biome :: "string option"
  place_nearbyBlocks :: "string list option"
  place_landmarks :: "string list option"
  place_timestamp :: nat

record region =
  region_bounds :: "xyz \<times> xyz"
  region_features :: "string list"
  region_subLocations :: "string list"
  region_timestamp :: nat

record landmark =
  landmark_position :: xyz
  landmark_description :: string
  landmark_type :: string
  landmark_discovered :: nat

record obstacle =
  obstacle_position :: vec3
  obstacle_type :: string
  obstacle_index :: nat

record path_record =
  pr_waypoints :: "vec3 list option"
  pr_obstacles :: "obstacle list option"
  pr_lastUsed :: nat
  pr_useCount :: nat

record visible_landmark =
  vl_name :: string
  vl_distance :: real
  vl_landmark :: landmark

record surroundings =
  biome :: string
  nearbyBlockTypes :: "string list"
  nearbyEntityTypes :: "string list"

record spatial_context =
  sc_position :: vec3
  sc_biome :: string
  sc_nearbyBlocks :: "string list"
  sc_nearbyEntities :: "string list"
  sc_timestamp :: nat
  sc_visibleLandmarks :: "visible_landmark list"

record memory_bank =
  locations :: "(string \<times> place) list"
  regions :: "(string \<times> region) list"
  landmarks :: "(string \<times> landmark) list"
  paths :: "(string \<times> path_record) list"
  spatialContext :: "spatial_context option"
  memory_lastUpdate :: "nat option"

definition new_memory_bank :: memory_bank where
  "new_memory_bank =
     \<lparr>locations = [], regions = [], landmarks = [], paths = [], spatialContext = None,
      memory_lastUpdate = None\<rparr>"

definition rememberPlace ::
  "string \<Rightarrow> real \<Rightarrow> real \<Rightarrow> real \<Rightarrow> string option \<Rightarrow> string list option \<Rightarrow> string list option \<Rightarrow> nat
     \<Rightarrow> memory_bank \<Rightarrow> memory_bank" where
  "rememberPlace name px py pz ctx_biome ctx_blocks ctx_landmarks now m =
     m\<lparr>locations := AList.update name
          \<lparr>place_position = (px, py, pz), place_biome = ctx_biome,
           place_nearbyBlocks = ctx_blocks, place_landmarks = ctx_landmarks,
           place_timestamp = now\<rparr> (locations m)\<rparr>"

definition recallPlace :: "memory_bank \<Rightarrow> string \<Rightarrow> place option" where
  "recallPlace m name = map_of (locations m) name"

definition defineRegion :: "string \<Rightarrow> xyz \<times> xyz \<Rightarrow> string list \<Rightarrow> nat \<Rightarrow> memory_bank \<Rightarrow> memory_bank" where
  "defineRegion name bounds features now m =
     m\<lparr>regions := AList.update name
          \<lparr>region_bounds = bounds, region_features = features, region_subLocations = [],
           region_timestamp = now\<rparr> (regions m)\<rparr>"

text \<open>
  \<^verbatim>\<open>rememberPath\<close> writes the entry under the key \<^verbatim>\<open>`${from}->${to}`\<close>; the use count
  is one more than the count of the entry it replaces (\<^verbatim>\<open>useCount || 0\<close> when there is
  none).
\<close>

definition rememberPath ::
  "string \<Rightarrow> string \<Rightarrow> vec3 list option \<Rightarrow> obstacle list option \<Rightarrow> nat \<Rightarrow> memory_bank \<Rightarrow> memory_bank" where
  "rememberPath from to waypoints obstacles now m =
     (let pathKey = from @ ''->'' @ to
      in m\<lparr>paths := AList.update pathKey
             \<lparr>pr_waypoints = waypoints, pr_obstacles = obstacles, pr_lastUsed = now,
              pr_useCount = (case map_of (paths m) pathKey of
                               None \<Rightarrow> 0 | Some p \<Rightarrow> pr_useCount p) + 1\<rparr> (paths m)\<rparr>)"

definition addLandmark :: "string \<Rightarrow> xyz \<Rightarrow> string \<Rightarrow> string \<Rightarrow> nat \<Rightarrow> memory_bank \<Rightarrow> memory_bank" where
  "addLandmark name pos descr type now m =
     m\<lparr>landmarks := AList.update name
          \<lparr>landmark_position = pos, landmark_description = descr, landmark_type = type,
           landmark_discovered = now\<rparr> (landmarks m)\<rparr>"

text \<open>The memory bank's own distance: a \<^verbatim>\<open>Vec3\<close> against an array of three numbers.\<close>

definition memory_calculateDistance :: "vec3 \<Rightarrow> xyz \<Rightarrow> real" where
  "memory_calculateDistance pos1 pos2 =
     (case pos2 of (p0, p1, p2) \<Rightarrow>
        let dx = vx pos1 - p0; dy = vy pos1 - p1; dz = vz pos1 - p2
        in sqrt (dx * dx + dy * dy + dz * dz))"

text \<open>
  \<^verbatim>\<open>getVisibleLandmarks\<close>: the landmarks within 16 of the bot's position, in table
  order, then sorted by distance (the sort is stable).
\<close>

definition getVisibleLandmarks :: "vec3 \<Rightarrow> memory_bank \<Rightarrow> visible_landmark list" where
  "getVisibleLandmarks position m =
     sort_key vl_distance
       (filter (\<lambda>v. vl_distance v \<le> 16)
          (map (\<lambda>(name, l).
                  \<lparr>vl_name = name,
                   vl_distance = memory_calculateDistance position (landmark_position l),
                   vl_landmark = l\<rparr>) (landmarks m)))"

text \<open>
  \<^verbatim>\<open>updateSpatialContext(bot)\<close>, called without scan data as the navigator calls it. The
  bot's position and what the world reports around it are the collaborator's answers.
\<close>

definition updateSpatialContext :: "vec3 \<Rightarrow> surroundings \<Rightarrow> nat \<Rightarrow> memory_bank \<Rightarrow> memory_bank" where
  "updateSpatialContext position around now m =
     m\<lparr>spatialContext :=
          Some \<lparr>sc_position = position, sc_biome = biome around,
                sc_nearbyBlocks = nearbyBlockTypes around,
                sc_nearbyEntities = nearbyEntityTypes around, sc_timestamp = now,
                sc_visibleLandmarks = getVisibleLandmarks position m\<rparr>,
       memory_lastUpdate := Some now\<rparr>"

text \<open>
  The snapshot \<^verbatim>\<open>getJson\<close> returns and \<^verbatim>\<open>loadJson\<close> reads is an object with up to four
  keys. \<^verbatim>\<open>loadJson\<close> tests each key for truthiness only: \<open>None\<close> is a key that is absent
  (or holds a falsy value); a table, also an empty one, is truthy.
\<close>

record snapshot =
  json_locations :: "(string \<times> place) list option"
  json_regions :: "(string \<times> region) list option"
  json_landmarks :: "(string \<times> landmark) list option"
  json_paths :: "(string \<times> path_record) list option"

definition getJson :: "memory_bank \<Rightarrow> snapshot" where
  "getJson m =
     \<lparr>json_locations = Some (locations m), json_regions = Some (regions m),
      json_landmarks = Some (landmarks m), json_paths = Some (paths m)\<rparr>"

definition loadJson :: "snapshot \<Rightarrow> memory_bank \<Rightarrow> memory_bank" where
  "loadJson json m =
     (let m1 = (case json_locations json of Some t \<Rightarrow> m\<lparr>locations := t\<rparr> | None \<Rightarrow> m);
          m2 = (case json_regions json of Some t \<Rightarrow> m1\<lparr>regions := t\<rparr> | None \<Rightarrow> m1);
          m3 = (case json_landmarks json of Some t \<Rightarrow> m2\<lparr>landmarks := t\<rparr> | None \<Rightarrow> m2);
          m4 = (case json_paths json of Some t \<Rightarrow> m3\<lparr>paths := t\<rparr> | None \<Rightarrow> m3)
      in m4)"

text \<open>A memory bank with an entry in each table and a spatial context.\<close>

definition sample_memory :: memory_bank where
  "sample_memory =
     updateSpatialContext \<lparr>vx = 1, vy = 64, vz = 1\<rparr>
         \<lparr>biome = ''plains'', nearbyBlockTypes = [''grass_block''], nearbyEntityTypes = []\<rparr> 50
       (rememberPath ''0,64,0'' ''10,64,0'' (Some [\<lparr>vx = 0, vy = 64, vz = 0\<rparr>]) (Some []) 40
         (addLandmark ''tower'' (3, 70, 3) ''stone tower'' ''structure'' 30
           (defineRegion ''home'' ((0, 60, 0), (16, 80, 16)) [''flat''] 20
             (rememberPlace ''base'' 1 64 1 (Some ''plains'') None None 10 new_memory_bank))))"

text \<open>Another bank, with other entries, into which a snapshot is loaded.\<close>

definition other_memory :: memory_bank where
  "other_memory =
     updateSpatialContext \<lparr>vx = 100, vy = 70, vz = 100\<rparr>
         \<lparr>biome = ''desert'', nearbyBlockTypes = [''sand''], nearbyEntityTypes = [''husk'']\<rparr> 99
       (addLandmark ''well'' (100, 70, 101) ''desert well'' ''structure'' 90
         (rememberPlace ''camp'' 100 70 100 None None None 80 new_memory_bank))"

text \<open>A snapshot that carries the landmarks table only.\<close>

definition landmarks_only :: snapshot where
  "landmarks_only =
     \<lparr>json_locations = None, json_regions = None,
      json_landmarks = Some [(''tower'', \<lparr>landmark_position = (3, 70, 3),
          landmark_description = ''stone tower'', landmark_type = ''structure'',
          landmark_discovered = 30\<rparr>)],
      json_paths = None\<rparr>"


section \<open>Sightlines of the environment scanner (EnvironmentScanner)\<close>

text \<open>
  \<^verbatim>\<open>checkSightline\<close> marches from the bot's position in a horizontal direction
  \<^verbatim>\<open>(dx, dz)\<close>, one unit per step, up to \<^verbatim>\<open>maxDist = 16\<close>. At each step the inner loop
  \<^verbatim>\<open>for (let y = start.y - 1; y <= start.y + 2; y++)\<close> queries the blocks of one column;
  a query that returns \<^verbatim>\<open>null\<close> is skipped, and the first block whose name is neither
  \<^verbatim>\<open>air\<close> nor \<^verbatim>\<open>cave_air\<close> ends the march.

  The coordinates are IEEE doubles: every sum and product the code computes is the exact
  result rounded to a double. The rounding is the parameter \<open>fl\<close> of the functions below
  (the double nearest to a real), applied wherever the code computes: \<^verbatim>\<open>start.y - 1\<close> is
  \<open>fl (vy start - 1)\<close>, \<^verbatim>\<open>y++\<close> is \<open>fl (y + 1)\<close>, \<^verbatim>\<open>start.x + dx * dist\<close> is
  \<open>fl (vx start + fl (dx * dist))\<close>. With rounding, the counter of the inner loop need
  not pass its bound after four rounds, or at all (at a height so large that
  \<open>fl (y + 1) = y\<close> the loop does not end): the column scan is a partial function, whose
  value \<open>None\<close> is a loop that does not return.
\<close>

record sightline_obstacle =
  so_block :: block
  so_position :: vec3
  so_distance :: nat

record sightline =
  direction :: "int \<times> int"
  clear :: bool
  distance :: nat
  obstacle :: "sightline_obstacle option"

definition maxDist :: nat where
  "maxDist = 16"

partial_function (option) scan_column ::
  "(real \<Rightarrow> real) \<Rightarrow> block_query \<Rightarrow> real \<Rightarrow> real \<Rightarrow> real \<Rightarrow> real \<Rightarrow> block option option" where
  "scan_column fl blockAt x z y upper =
     (if y \<le> upper then
        (case blockAt \<lparr>vx = x, vy = y, vz = z\<rparr> of
           None \<Rightarrow> scan_column fl blockAt x z (fl (y + 1)) upper
         | Some b \<Rightarrow>
             if block_name b \<noteq> ''air'' \<and> block_name b \<noteq> ''cave_air'' then Some (Some b)
             else scan_column fl blockAt x z (fl (y + 1)) upper)
      else Some None)"

text \<open>
  The outer loop over the step counter, an integer from 1 to 16. A column scan that does
  not return makes the march not return.
\<close>

function ray_march ::
  "(real \<Rightarrow> real) \<Rightarrow> block_query \<Rightarrow> vec3 \<Rightarrow> int \<Rightarrow> int \<Rightarrow> nat \<Rightarrow> sightline option" where
  "ray_march fl blockAt start dx dz stepn =
     (if stepn \<le> maxDist then
        (let x = \<lfloor>fl (vx start + fl (of_int dx * real stepn))\<rfloor>;
             z = \<lfloor>fl (vz start + fl (of_int dz * real stepn))\<rfloor>
         in case scan_column fl blockAt (of_int x) (of_int z) (fl (vy start - 1)) (fl (vy start + 2)) of
              None \<Rightarrow> None
            | Some (Some b) \<Rightarrow>
                Some \<lparr>direction = (dx, dz), clear = False, distance = stepn,
                      obstacle = Some \<lparr>so_block = b, so_position = block_position b,
                                       so_distance = stepn\<rparr>\<rparr>
            | Some None \<Rightarrow> ray_march fl blockAt start dx dz (stepn + 1))
      else Some \<lparr>direction = (dx, dz), clear = True, distance = maxDist, obstacle = None\<rparr>)"
  by pat_completeness auto
termination
  by (relation "measure (\<lambda>(fl, blockAt, start, dx, dz, stepn). Suc maxDist - stepn)") auto

declare ray_march.simps [simp del]

definition checkSightline ::
  "(real \<Rightarrow> real) \<Rightarrow> block_query \<Rightarrow> vec3 \<Rightarrow> int \<Rightarrow> int \<Rightarrow> sightline option" where
  "checkSightline fl blockAt start dx dz = ray_march fl blockAt start dx dz 1"

record sightlines =
  clearPaths :: "sightline list"
  sightline_obstacles :: "sightline_obstacle option list"
  visibilityMap :: "(string \<times> sightline) list"

definition directions :: "(int \<times> int) list" where
  "directions = [(1, 0), (1, 1), (0, 1), (-1, 1), (-1, 0), (-1, -1), (0, -1), (1, -1)]"

definition direction_key :: "int \<times> int \<Rightarrow> string" where
  "direction_key d = show_int (fst d) @ '','' @ show_int (snd d)"

fun analyze_directions ::
  "(real \<Rightarrow> real) \<Rightarrow> block_query \<Rightarrow> vec3 \<Rightarrow> (int \<times> int) list \<Rightarrow> sightlines \<Rightarrow> sightlines option" where
  "analyze_directions fl blockAt pos [] acc = Some acc"
| "analyze_directions fl blockAt pos (d # ds) acc =
     (case checkSightline fl blockAt pos (fst d) (snd d) of
        None \<Rightarrow> None
      | Some s \<Rightarrow>
          let acc1 = acc\<lparr>visibilityMap := AList.update (direction_key d) s (visibilityMap acc)\<rparr>;
              acc2 = (if clear s then acc1\<lparr>clearPaths := clearPaths acc1 @ [s]\<rparr>
                      else acc1\<lparr>sightline_obstacles := sightline_obstacles acc1 @ [obstacle s]\<rparr>)
          in analyze_directions fl blockAt pos ds acc2)"

definition analyzeSightlines :: "(real \<Rightarrow> real) \<Rightarrow> block_query \<Rightarrow> vec3 \<Rightarrow> sightlines option" where
  "analyzeSightlines fl blockAt pos =
     analyze_directions fl blockAt pos directions
       \<lparr>clearPaths = [], sightline_obstacles = [], visibilityMap = []\<rparr>"

text \<open>
  The counter of the inner loop is exact at the height \<open>y\<close>: none of the numbers
  \<open>y - 1\<close>, \<open>y\<close>, \<open>y + 1\<close>, \<open>y + 2\<close>, \<open>y + 3\<close> is changed by the rounding. This is so
  at every integral height a double holds exactly with its neighbours (below
  \<open>2 ^ 53\<close> in size), the height of a bot that stands on a full block; at a fractional
  height it can fail.
\<close>

definition counter_exact :: "(real \<Rightarrow> real) \<Rightarrow> real \<Rightarrow> bool" where
  "counter_exact fl y = list_all (\<lambda>v. fl v = v) [y - 1, y, y + 1, y + 2, y + 3]"

text \<open>
  What one step of the march looks at when the counter is exact, stated on its own: the
  block queries at the four heights \<open>y - 1\<close>, \<open>y\<close>, \<open>y + 1\<close>, \<open>y + 2\<close> of the column
  the step computes, lowest first; the result is the first block among them that is
  present and is neither air nor cave air.
\<close>

definition solid :: "block option \<Rightarrow> bool" where
  "solid r = (case r of None \<Rightarrow> False
              | Some b \<Rightarrow> block_name b \<noteq> ''air'' \<and> block_name b \<noteq> ''cave_air'')"

definition slab_hit ::
  "(real \<Rightarrow> real) \<Rightarrow> block_query \<Rightarrow> vec3 \<Rightarrow> int \<Rightarrow> int \<Rightarrow> nat \<Rightarrow> block option" where
  "slab_hit fl blockAt start dx dz stepn =
     (let x = of_int \<lfloor>fl (vx start + fl (of_int dx * real stepn))\<rfloor>;
          z = of_int \<lfloor>fl (vz start + fl (of_int dz * real stepn))\<rfloor>
      in case find solid
              (map (\<lambda>k. blockAt \<lparr>vx = x, vy = vy start - 1 + real k, vz = z\<rparr>) [0, 1, 2, 3]) of
           None \<Rightarrow> None
         | Some r \<Rightarrow> r)"

text \<open>
  A world of air with one stone block in the cell \<open>(cx, cy, cz)\<close>; the query floors the
  coordinates it is given to find the cell.
\<close>

definition one_stone :: "int \<Rightarrow> int \<Rightarrow> int \<Rightarrow> block_query" where
  "one_stone cx cy cz p =
     (if \<lfloor>vx p\<rfloor> = cx \<and> \<lfloor>vy p\<rfloor> = cy \<and> \<lfloor>vz p\<rfloor> = cz
      then Some \<lparr>block_name = ''stone'', block_position = \<lparr>vx = of_int cx, vy = of_int cy, vz = of_int cz\<rparr>\<rparr>
      else Some \<lparr>block_name = ''air'', block_position = \<lparr>vx = of_int \<lfloor>vx p\<rfloor>, vy = of_int \<lfloor>vy p\<rfloor>, vz = of_int \<lfloor>vz p\<rfloor>\<rparr>\<rparr>)"

text \<open>The bot in the middle of a block, its feet at the integral height 64.\<close>

definition feet_at_64 :: vec3 where
  "feet_at_64 = \<lparr>vx = 1 / 2, vy = 64, vz = 1 / 2\<rparr>"

text \<open>
  The rounding on the numbers of the runs from \<open>feet_at_64\<close>: they are integers and
  halves of integers below 100 in size, each of them a double, so the rounding leaves
  them as they are.
\<close>

definition no_rounding :: "real \<Rightarrow> real" where
  "no_rounding r = r"


section \<open>Navigator (src/agent/enhanced_navigation.js)\<close>

subsection \<open>Data\<close>

text \<open>
  The options object of \<^verbatim>\<open>moveToLocation\<close>: a field the caller leaves out is \<open>None\<close>.
  The checkpoint interval and the update interval are natural numbers here (a negative
  or fractional interval is outside the model). The target is a point, or an object
  with a \<^verbatim>\<open>position\<close> field.
\<close>

record nav_options =
  opt_canDig :: "bool option"
  opt_canPlace :: "bool option"
  opt_range :: "real option"
  opt_checkpointInterval :: "nat option"
  opt_updateInterval :: "nat option"

datatype nav_target = Point vec3 | Positioned vec3

record movements =
  mv_canDig :: "bool option"
  mv_canPlaceOn :: "bool option"

record goal_near =
  gn_point :: vec3
  gn_range :: real

text \<open>
  The pathfinding collaborator: \<^verbatim>\<open>getPathTo\<close> rejects with a message, or resolves to a
  status and a path.
\<close>

datatype route_outcome = Rejects string | Resolves string "vec3 list"

datatype marker = NotableBlock string vec3 | LandmarkMarker visible_landmark

record nav_path =
  waypoints :: "vec3 list"
  checkpoints :: "vec3 list"
  obstacles :: "obstacle list"
  contextualMarkers :: "marker list"

record path_entry =
  pe_start :: vec3
  pe_end :: vec3
  pe_timestamp :: nat
  pe_successful :: bool
  pe_error :: "string option"

text \<open>
  The last observed progress is a JavaScript number; \<^verbatim>\<open>calculatePathProgress\<close> can
  return \<^verbatim>\<open>NaN\<close> (a division of zero by zero), which compares false with everything.
\<close>

datatype js_number = Num real | NaN

record stuck_detection =
  lastProgress :: js_number
  stuckTime :: nat
  stuckThreshold :: nat

text \<open>
  The navigator object. Besides its own fields the state holds what its calls do to
  the runtime and to the bot: \<open>timers\<close> are the interval timers that \<^verbatim>\<open>setInterval\<close>
  has started and \<^verbatim>\<open>clearInterval\<close> has not cancelled (handle and period),
  \<open>nextTimer\<close> is the handle the next \<^verbatim>\<open>setInterval\<close> returns, \<open>gotoCalls\<close> are the
  goals passed to \<^verbatim>\<open>bot.pathfinder.goto\<close> so far, and \<open>stuckWarnings\<close> counts the calls
  of \<^verbatim>\<open>handleStuckState\<close> (which only logs a warning). The field
  \<^verbatim>\<open>navigationContext\<close> is never read or written after construction and is left out.
\<close>

record navigation =
  memory :: memory_bank
  currentPath :: "nav_path option"
  pathHistory :: "path_entry list"
  lastPosition :: "vec3 option"
  stuckDetection :: stuck_detection
  timers :: "(nat \<times> nat) list"
  nextTimer :: nat
  gotoCalls :: "goal_near list"
  stuckWarnings :: nat

definition new_navigation :: "memory_bank \<Rightarrow> navigation" where
  "new_navigation memoryBank =
     \<lparr>memory = memoryBank, currentPath = None, pathHistory = [], lastPosition = None,
      stuckDetection = \<lparr>lastProgress = Num 0, stuckTime = 0, stuckThreshold = 5000\<rparr>,
      timers = [], nextTimer = 0, gotoCalls = [], stuckWarnings = 0\<rparr>"

text \<open>
  What the world answers during one call of \<^verbatim>\<open>moveToLocation\<close>. For the move to the
  checkpoint with index \<open>i\<close>, \<open>steps w i\<close> gives: the interrupt flag as it is polled
  before the move; the bot positions read by the callbacks of the progress timer that
  fire while the move is awaited, in order; the message with which
  \<^verbatim>\<open>pathfinder.goto\<close> rejects, if it does; the bot's position when the arrival is
  verified; and what the world reports around it at the clock reading of the context
  update.
\<close>

record step_world =
  interrupt_code :: bool
  ticks :: "vec3 list"
  goto_error :: "string option"
  position_after :: vec3
  around :: surroundings
  step_time :: nat

record nav_world =
  position_at_call :: vec3
  getPathTo :: "movements \<Rightarrow> goal_near \<Rightarrow> nat \<Rightarrow> route_outcome"
  world_blockAt :: block_query
  getNearestBlock :: "string \<Rightarrow> nat \<Rightarrow> block option"
  position_at_execution :: vec3
  steps :: "nat \<Rightarrow> step_world"
  finish_time :: nat

subsection \<open>Planning\<close>

definition movements_of :: "nav_options \<Rightarrow> movements" where
  "movements_of opts = \<lparr>mv_canDig = opt_canDig opts, mv_canPlaceOn = opt_canPlace opts\<rparr>"

text \<open>\<^verbatim>\<open>options.range || 1\<close>: a missing range and the range 0 both give 1.\<close>

definition goal_of :: "nav_target \<Rightarrow> nav_options \<Rightarrow> goal_near" where
  "goal_of target opts =
     (let r = (case opt_range opts of None \<Rightarrow> 1 | Some v \<Rightarrow> if v = 0 then 1 else v)
      in case target of
           Positioned p \<Rightarrow> \<lparr>gn_point = p, gn_range = r\<rparr>
         | Point p \<Rightarrow> \<lparr>gn_point = p, gn_range = r\<rparr>)"

text \<open>\<^verbatim>\<open>options.checkpointInterval || 5\<close>: a missing interval and the interval 0 both give 5.\<close>

definition checkpointInterval_of :: "nav_options \<Rightarrow> nat" where
  "checkpointInterval_of opts =
     (case opt_checkpointInterval opts of None \<Rightarrow> 5 | Some n \<Rightarrow> if n = 0 then 5 else n)"

text \<open>
  The loop \<^verbatim>\<open>for (let i = 0; i < path.waypoints.length; i += checkpointInterval)\<close> that
  pushes \<^verbatim>\<open>path.waypoints[i]\<close>. The interval it is run with is never 0 (see above);
  the test \<open>0 < n\<close> is there for the recursion to be well-founded on every argument.
\<close>

function add_checkpoints :: "nat \<Rightarrow> nat \<Rightarrow> 'a list \<Rightarrow> 'a list" where
  "add_checkpoints i n ws =
     (if i < length ws \<and> 0 < n then ws ! i # add_checkpoints (i + n) n ws else [])"
  by pat_completeness auto
termination
  by (relation "measure (\<lambda>(i, n, ws). length ws - i)") auto

declare add_checkpoints.simps [simp del]

text \<open>
  \<^verbatim>\<open>identifyObstacles\<close>: for every waypoint but the first, the block at the waypoint,
  when there is one and its name does not contain \<^verbatim>\<open>air\<close>; the index recorded is the
  index of the waypoint before it.
\<close>

fun identify_from :: "block_query \<Rightarrow> nat \<Rightarrow> vec3 list \<Rightarrow> obstacle list" where
  "identify_from q i (current # next # rest) =
     (case q next of
        Some b \<Rightarrow>
          if \<not> includes_str (block_name b) ''air''
          then [\<lparr>obstacle_position = next, obstacle_type = block_name b, obstacle_index = i\<rparr>]
          else []
      | None \<Rightarrow> []) @ identify_from q (i + 1) (next # rest)"
| "identify_from q i ws = []"

definition identifyObstacles :: "block_query \<Rightarrow> vec3 list \<Rightarrow> obstacle list" where
  "identifyObstacles q ws = identify_from q 0 ws"

definition generateContextualMarkers :: "nav_world \<Rightarrow> memory_bank \<Rightarrow> marker list" where
  "generateContextualMarkers w m =
     concat (map (\<lambda>blockType.
                    case getNearestBlock w blockType 16 of
                      Some b \<Rightarrow> [NotableBlock (block_name b) (block_position b)]
                    | None \<Rightarrow> [])
               [''chest'', ''crafting_table'', ''furnace''])
     @ map LandmarkMarker (getVisibleLandmarks (position_at_call w) m)"

definition empty_path :: nav_path where
  "empty_path = \<lparr>waypoints = [], checkpoints = [], obstacles = [], contextualMarkers = []\<rparr>"

text \<open>
  \<^verbatim>\<open>planPathWithContext\<close>: a rejection of the pathfinder is caught and raised again as
  \<^verbatim>\<open>Failed to plan path: ...\<close>; a status other than \<^verbatim>\<open>success\<close> leaves the plan as it
  was initialised, empty, and the function returns it.
\<close>

definition planPathWithContext :: "nav_target \<Rightarrow> nav_options \<Rightarrow> nav_world \<Rightarrow> navigation \<Rightarrow> js_error + nav_path" where
  "planPathWithContext target opts w s =
     (case getPathTo w (movements_of opts) (goal_of target opts) 100 of
        Rejects msg \<Rightarrow> Inl (Error (''Failed to plan path: '' @ msg))
      | Resolves st route \<Rightarrow>
          if st = ''success''
          then Inr \<lparr>waypoints = route,
                    checkpoints = add_checkpoints 0 (checkpointInterval_of opts) route,
                    obstacles = identifyObstacles (world_blockAt w) route,
                    contextualMarkers = generateContextualMarkers w (memory s)\<rparr>
          else Inr empty_path)"

subsection \<open>Progress monitoring\<close>

definition calculatePathProgress :: "nav_path option \<Rightarrow> vec3 \<Rightarrow> js_number" where
  "calculatePathProgress cp currentPos =
     (case cp of
        None \<Rightarrow> Num 0
      | Some p \<Rightarrow>
          if waypoints p = [] then Num 0
          else
            let startPos = hd (waypoints p);
                endPos = last (waypoints p);
                totalDistance = calculateDistance startPos endPos;
                distanceToEnd = calculateDistance currentPos endPos
            in if totalDistance = 0
               then (if distanceToEnd = 0 then NaN else Num 0)
               else Num (max 0 (min 1 (1 - distanceToEnd / totalDistance))))"

text \<open>\<^verbatim>\<open>Math.abs(progress - lastProgress) < 0.01\<close>, false when either number is \<^verbatim>\<open>NaN\<close>.\<close>

fun no_progress :: "js_number \<Rightarrow> js_number \<Rightarrow> bool" where
  "no_progress (Num a) (Num b) = (\<bar>a - b\<bar> < 1 / 100)"
| "no_progress _ _ = False"

text \<open>The callback of the progress timer; \<open>currentPos\<close> is the bot's position it reads.\<close>

definition updateNavigationProgress :: "vec3 \<Rightarrow> navigation \<Rightarrow> navigation" where
  "updateNavigationProgress currentPos s =
     (if currentPath s = None \<or> lastPosition s = None then s
      else
        let prog = calculatePathProgress (currentPath s) currentPos;
            sd = stuckDetection s;
            s1 = (if no_progress prog (lastProgress sd)
                  then
                    let sd1 = sd\<lparr>stuckTime := stuckTime sd + 1000\<rparr>
                    in if stuckTime sd1 \<ge> stuckThreshold sd1
                       then s\<lparr>stuckDetection := sd1, stuckWarnings := stuckWarnings s + 1\<rparr>
                       else s\<lparr>stuckDetection := sd1\<rparr>
                  else s\<lparr>stuckDetection := sd\<lparr>stuckTime := 0\<rparr>\<rparr>)
        in s1\<lparr>stuckDetection := (stuckDetection s1)\<lparr>lastProgress := prog\<rparr>,
              lastPosition := Some currentPos\<rparr>)"

subsection \<open>Execution\<close>

definition message :: "js_error \<Rightarrow> string" where
  "message e = (case e of TypeError m \<Rightarrow> m | Error m \<Rightarrow> m)"

definition coord_key :: "vec3 \<Rightarrow> string" where
  "coord_key p = show_int \<lfloor>vx p\<rfloor> @ '','' @ show_int \<lfloor>vy p\<rfloor> @ '','' @ show_int \<lfloor>vz p\<rfloor>"

definition recordSuccessfulPath :: "vec3 \<Rightarrow> vec3 \<Rightarrow> nat \<Rightarrow> navigation \<Rightarrow> navigation" where
  "recordSuccessfulPath start end_pos now s =
     (let pathEntry = \<lparr>pe_start = start, pe_end = end_pos, pe_timestamp = now,
                        pe_successful = True, pe_error = None\<rparr>
      in s\<lparr>pathHistory := pathHistory s @ [pathEntry],
            memory := rememberPath (coord_key start) (coord_key end_pos)
                        (map_option waypoints (currentPath s))
                        (map_option obstacles (currentPath s)) now (memory s)\<rparr>)"

definition recordFailedPath :: "vec3 \<Rightarrow> vec3 \<Rightarrow> js_error \<Rightarrow> nat \<Rightarrow> navigation \<Rightarrow> navigation" where
  "recordFailedPath start end_pos err now s =
     s\<lparr>pathHistory := pathHistory s @
          [\<lparr>pe_start = start, pe_end = end_pos, pe_timestamp = now, pe_successful = False,
            pe_error = Some (message err)\<rparr>]\<rparr>"

text \<open>The goal \<^verbatim>\<open>moveToCheckpoint\<close> passes to \<^verbatim>\<open>pathfinder.goto\<close>: the checkpoint, range 1.\<close>

definition goto_goal :: "vec3 \<Rightarrow> goal_near" where
  "goto_goal c = \<lparr>gn_point = c, gn_range = 1\<rparr>"

text \<open>
  The body of the \<^verbatim>\<open>for (const checkpoint of path.checkpoints)\<close> loop: poll the
  interrupt flag; call \<^verbatim>\<open>pathfinder.goto\<close> on the checkpoint with range 1 and await it,
  the timer's callbacks running meanwhile; verify the arrival within distance 2; update
  the spatial context. The result is \<open>Inl\<close> of the error thrown, or \<open>Inr ()\<close> when the
  loop ran to its end.
\<close>

fun checkpoint_loop :: "vec3 list \<Rightarrow> nat \<Rightarrow> (nat \<Rightarrow> step_world) \<Rightarrow> navigation \<Rightarrow> (js_error + unit) \<times> navigation" where
  "checkpoint_loop [] i sw s = (Inr (), s)"
| "checkpoint_loop (checkpoint # rest) i sw s =
     (if interrupt_code (sw i) then (Inl (Error ''Navigation interrupted''), s)
      else
        let s1 = s\<lparr>gotoCalls := gotoCalls s @ [goto_goal checkpoint]\<rparr>;
            s2 = fold updateNavigationProgress (ticks (sw i)) s1
        in case goto_error (sw i) of
             Some msg \<Rightarrow> (Inl (Error (''Failed to reach checkpoint: '' @ msg)), s2)
           | None \<Rightarrow>
               if calculateDistance (position_after (sw i)) checkpoint > 2
               then (Inl (Error ''Navigation verification failed: Off course''), s2)
               else checkpoint_loop rest (i + 1) sw
                      (s2\<lparr>memory := updateSpatialContext (position_after (sw i)) (around (sw i))
                                       (step_time (sw i)) (memory s2)\<rparr>))"

text \<open>\<^verbatim>\<open>options.updateInterval || 1000\<close>.\<close>

definition updateInterval_of :: "nav_options \<Rightarrow> nat" where
  "updateInterval_of opts =
     (case opt_updateInterval opts of None \<Rightarrow> 1000 | Some n \<Rightarrow> if n = 0 then 1000 else n)"

text \<open>
  \<^verbatim>\<open>executePathWithContext\<close>. \<open>start\<close> is \<^verbatim>\<open>options.startContext.position\<close>. The guard
  on an empty path throws before anything is set up. Otherwise the current path and the
  last position are set, the progress timer is started, the loop runs inside
  \<^verbatim>\<open>try\<close>; its normal end records the successful path, an error is caught, recorded
  as a failed path and thrown again; the \<^verbatim>\<open>finally\<close> block cancels the timer and
  clears the current path.
\<close>

definition executePathWithContext ::
  "nav_path \<Rightarrow> vec3 \<Rightarrow> nav_options \<Rightarrow> nav_world \<Rightarrow> navigation \<Rightarrow> (js_error + bool) \<times> navigation" where
  "executePathWithContext path start opts w s =
     (if waypoints path = [] then (Inl (Error ''Invalid path provided''), s)
      else
        let s1 = s\<lparr>currentPath := Some path, lastPosition := Some (position_at_execution w)\<rparr>;
            progressMonitor = nextTimer s1;
            s2 = s1\<lparr>timers := timers s1 @ [(progressMonitor, updateInterval_of opts)],
                    nextTimer := nextTimer s1 + 1\<rparr>;
            tried = checkpoint_loop (checkpoints path) 0 (steps w) s2;
            finished =
              (case fst tried of
                 Inr u \<Rightarrow>
                   (Inr True,
                    recordSuccessfulPath start (last (waypoints path)) (finish_time w) (snd tried))
               | Inl err \<Rightarrow>
                   (Inl err,
                    recordFailedPath start (last (waypoints path)) err (finish_time w) (snd tried)))
        in (fst finished,
            (snd finished)\<lparr>timers := filter (\<lambda>t. fst t \<noteq> progressMonitor) (timers (snd finished)),
                           currentPath := None\<rparr>))"

text \<open>
  \<^verbatim>\<open>moveToLocation\<close>: read the start position, plan, execute. An error thrown by the
  planning leaves the call at once. (The landmarks of the start context are computed and
  never read. An options object that itself carries \<^verbatim>\<open>startContext\<close> would replace the
  start context; the options of the model have no such field.)
\<close>

definition moveToLocation ::
  "nav_target \<Rightarrow> nav_options \<Rightarrow> nav_world \<Rightarrow> navigation \<Rightarrow> (js_error + bool) \<times> navigation" where
  "moveToLocation target opts w s =
     (case planPathWithContext target opts w s of
        Inl err \<Rightarrow> (Inl err, s)
      | Inr path \<Rightarrow> executePathWithContext path (position_at_call w) opts w s)"


subsection \<open>Concrete worlds\<close>

text \<open>A point at height 64 on the x axis.\<close>

definition at_x :: "real \<Rightarrow> vec3" where
  "at_x a = \<lparr>vx = a, vy = 64, vz = 0\<rparr>"

text \<open>A route of seven waypoints along the x axis.\<close>

definition straight_route :: "vec3 list" where
  "straight_route = [at_x 0, at_x 1, at_x 2, at_x 3, at_x 4, at_x 5, at_x 6]"

text \<open>The options object \<^verbatim>\<open>{}\<close>.\<close>

definition no_options :: nav_options where
  "no_options =
     \<lparr>opt_canDig = None, opt_canPlace = None, opt_range = None, opt_checkpointInterval = None,
      opt_updateInterval = None\<rparr>"

text \<open>
  A move during which nothing happens: no interrupt, no timer callback, the pathfinder
  arrives, and the bot stands at \<open>p\<close> when the arrival is verified.
\<close>

definition calm_step :: "vec3 \<Rightarrow> step_world" where
  "calm_step p =
     \<lparr>interrupt_code = False, ticks = [], goto_error = None, position_after = p,
      around = \<lparr>biome = ''plains'', nearbyBlockTypes = [''grass_block''], nearbyEntityTypes = []\<rparr>,
      step_time = 10\<rparr>"

text \<open>
  A world in which the bot starts at the origin of the x axis, the pathfinder answers
  \<open>outcome\<close> to every route request, no block and no notable block is found,
  and the moves go as \<open>sw\<close> says.
\<close>

definition walk_world :: "route_outcome \<Rightarrow> (nat \<Rightarrow> step_world) \<Rightarrow> nav_world" where
  "walk_world outcome sw =
     \<lparr>position_at_call = at_x 0, getPathTo = (\<lambda>m g budget. outcome),
      world_blockAt = (\<lambda>p. None), getNearestBlock = (\<lambda>t r. None),
      position_at_execution = at_x 0, steps = sw, finish_time = 99\<rparr>"

text \<open>The plan for the straight route with the default interval 5.\<close>

definition straight_plan :: nav_path where
  "straight_plan =
     \<lparr>waypoints = straight_route, checkpoints = [at_x 0, at_x 5], obstacles = [],
      contextualMarkers = []\<rparr>"

text \<open>
  Every move arrives at its checkpoint (the checkpoints of the straight plan are at x = 0
  and x = 5).
\<close>

definition arriving :: "nat \<Rightarrow> step_world" where
  "arriving i = calm_step (at_x (5 * real i))"

text \<open>The second move ends at x = 9, at distance 4 from its checkpoint.\<close>

definition drifting :: "nat \<Rightarrow> step_world" where
  "drifting i = (if i = 1 then calm_step (at_x 9) else arriving i)"

text \<open>The pathfinder rejects the second move.\<close>

definition blocked :: "nat \<Rightarrow> step_world" where
  "blocked i = (if i = 1 then (arriving i)\<lparr>goto_error := Some ''no path''\<rparr> else arriving i)"

text \<open>The interrupt flag is set when it is polled before the second move.\<close>

definition interrupted :: "nat \<Rightarrow> step_world" where
  "interrupted i = (if i = 1 then (arriving i)\<lparr>interrupt_code := True\<rparr> else arriving i)"

text \<open>
  The bot does not leave the start: the timer fires twice during the first move, then the
  pathfinder rejects.
\<close>

definition stalled :: "nat \<Rightarrow> step_world" where
  "stalled i = (arriving i)\<lparr>ticks := [at_x 0, at_x 0], goto_error := Some ''blocked''\<rparr>"

text \<open>
  The timer fires once during the first move, with the bot still at the start; every move
  arrives.
\<close>

definition one_tick :: "nat \<Rightarrow> step_world" where
  "one_tick i = (if i = 0 then (arriving i)\<lparr>ticks := [at_x 0]\<rparr> else arriving i)"

text \<open>The navigator after a first navigation in the stalled world.\<close>

definition after_stalled_run :: navigation where
  "after_stalled_run =
     snd (moveToLocation (Point (at_x 6)) no_options
            (walk_world (Resolves ''success'' straight_route) stalled)
            (new_navigation new_memory_bank))"

text \<open>
  A navigator while an interval timer of some other owner, with handle 0, is active.
\<close>

definition busy_navigation :: navigation where
  "busy_navigation = (new_navigation new_memory_bank)\<lparr>timers := [(0, 250)], nextTimer := 1\<rparr>"



section \<open>Properties of the goal tracker\<close>

subsection \<open>Lookup and assignment through the reference\<close>

lemma find_replace_first:
  "find P xs = Some x \<Longrightarrow> P v \<Longrightarrow> find P (replace_first P v xs) = Some v"
  by (induction xs) (auto split: if_splits)

lemma list_all_replace_first:
  "list_all Q xs \<Longrightarrow> Q v \<Longrightarrow> list_all Q (replace_first P v xs)"
  by (induction xs) auto

lemma findGoal_gid: "findGoal s g = Some goal \<Longrightarrow> gid goal = g"
  by (auto simp: findGoal_def find_Some_iff split: option.splits if_splits)

lemma findGoal_storeGoal:
  "findGoal s g = Some goal \<Longrightarrow> gid v = g \<Longrightarrow> findGoal (storeGoal g v s) g = Some v"
  by (auto simp: findGoal_def storeGoal_def find_replace_first split: option.splits if_splits)

lemma strategyAdaptations_storeGoal [simp]:
  "strategyAdaptations (storeGoal g v s) = strategyAdaptations s"
  by (simp add: storeGoal_def split: option.splits)

lemma findGoal_strategyAdaptations_update [simp]:
  "findGoal (s\<lparr>strategyAdaptations := a\<rparr>) g = findGoal s g"
  by (simp add: findGoal_def split: option.splits)

lemma findGoal_updateMainGoalProgress:
  "mainGoal s = Some m \<Longrightarrow> gid m \<noteq> g \<Longrightarrow> findGoal (updateMainGoalProgress s) g = findGoal s g"
  by (simp add: updateMainGoalProgress_def findGoal_def Let_def)

subsection \<open>Progress aggregation when a subgoal completes\<close>

text \<open>
  Claim C1. The scenario of the specification, run on the program: a main goal with two
  subgoals that report progress 40 and 60 has main-goal progress 50. After
  \<^verbatim>\<open>completeGoal\<close> on the first subgoal the main-goal progress is 60, not the 80 the
  scenario states: \<^verbatim>\<open>completeGoal\<close> removes the completed subgoal from \<^verbatim>\<open>subGoals\<close>
  before it calls \<^verbatim>\<open>updateMainGoalProgress\<close>, so the branch of the mean that counts a
  completed subgoal as 100 never sees it, and the mean is taken over the one remaining
  subgoal. The completed copy (status completed, progress 40) is in the history list only.
\<close>

theorem completeGoal_scenario_progress:
  "map_option progress (mainGoal scenario_40_60) = Some 50
   \<and> map_option progress (mainGoal (completeGoal ''subgoal_1001_0'' 1005 scenario_40_60)) = Some 60
   \<and> map gid (subGoals (completeGoal ''subgoal_1001_0'' 1005 scenario_40_60)) = [''subgoal_1002_1'']
   \<and> map (\<lambda>g. (gid g, status g, progress g))
        (completedGoals (completeGoal ''subgoal_1001_0'' 1005 scenario_40_60))
        = [(''subgoal_1001_0'', Completed, 40)]"
  by (simp add: scenario_40_60_def scenario_tracker_def setMainGoal_def addSubGoal_def
        init_goal_system_def updateGoalProgress_def completeGoal_def remove_if_subgoal_def
        findGoal_def storeGoal_def updateMainGoalProgress_def subgoal_contribution_def
        show_nat.simps digit_char_def Let_def)

subsection \<open>Start gating\<close>




text \<open>
  The main goal object has neither list: \<^verbatim>\<open>canStartGoal\<close> of the main goal's id raises
  a TypeError instead of returning a boolean.
\<close>

lemma canStartGoal_mainGoal_raises:
  "canStartGoal scenario_tracker ''goal_1000'' = Inl (TypeError ''prerequisites is undefined'')"
  by (simp add: scenario_tracker_def setMainGoal_def addSubGoal_def init_goal_system_def
        canStartGoal_def getPendingPrerequisites_def findGoal_def show_nat.simps digit_char_def
        Let_def)


subsection \<open>Range of stored progress\<close>

lemma foldl_contribution:
  "foldl (\<lambda>sum g. sum + subgoal_contribution g) a xs = a + sum_list (map subgoal_contribution xs)"
  by (induction xs arbitrary: a) auto

lemma contribution_bounds:
  "list_all in_range xs \<Longrightarrow>
     0 \<le> sum_list (map subgoal_contribution xs)
     \<and> sum_list (map subgoal_contribution xs) \<le> 100 * real (length xs)"
  by (induction xs) (auto simp: in_range_def subgoal_contribution_def)

lemma floor_mean_bounds:
  assumes "0 \<le> (t::real)" and "t \<le> 100 * real n" and "0 < n"
  shows "0 \<le> (of_int \<lfloor>t / real n\<rfloor> :: real) \<and> (of_int \<lfloor>t / real n\<rfloor> :: real) \<le> 100"
proof -
  have a: "0 \<le> t / real n" using assms by simp
  have b: "t / real n \<le> 100" using assms by (simp add: divide_le_eq)
  have "0 \<le> \<lfloor>t / real n\<rfloor>" using a by simp
  moreover have "(of_int \<lfloor>t / real n\<rfloor> :: real) \<le> t / real n" by simp
  ultimately show ?thesis using b by linarith
qed

lemma updateMainGoalProgress_in_range:
  assumes "all_in_range s" shows "all_in_range (updateMainGoalProgress s)"
proof (cases "mainGoal s")
  case None
  then show ?thesis using assms by (simp add: updateMainGoalProgress_def)
next
  case (Some m)
  have sub: "list_all in_range (subGoals s)" using assms by (simp add: all_in_range_def)
  show ?thesis
  proof (cases "subGoals s = []")
    case True
    then show ?thesis using assms Some
      by (simp add: updateMainGoalProgress_def all_in_range_def in_range_def)
  next
    case False
    then have n: "0 < length (subGoals s)" by simp
    have fm: "in_range (m\<lparr>progress := of_int \<lfloor>foldl (\<lambda>sum g. sum + subgoal_contribution g) 0 (subGoals s) / real (length (subGoals s))\<rfloor>\<rparr>)"
      using floor_mean_bounds[OF _ _ n] contribution_bounds[OF sub]
      by (simp add: in_range_def foldl_contribution)
    have hundred: "in_range (m\<lparr>progress := 100\<rparr>)" by (simp add: in_range_def)
    show ?thesis using assms Some False fm hundred
      by (simp add: updateMainGoalProgress_def all_in_range_def Let_def)
  qed
qed

lemma storeGoal_in_range:
  "all_in_range s \<Longrightarrow> in_range v \<Longrightarrow> all_in_range (storeGoal g v s)"
  by (auto simp: all_in_range_def storeGoal_def list_all_replace_first split: option.splits)

lemma findGoal_in_range:
  "all_in_range s \<Longrightarrow> findGoal s g = Some goal \<Longrightarrow> in_range goal"
  by (auto simp: all_in_range_def findGoal_def find_Some_iff list_all_length
      split: option.splits if_splits)

lemma remove_if_subgoal_in_range:
  "all_in_range s \<Longrightarrow> all_in_range (remove_if_subgoal g s)"
  by (auto simp: all_in_range_def remove_if_subgoal_def list_all_iff)

lemma setMainGoal_in_range: "all_in_range s \<Longrightarrow> all_in_range (snd (setMainGoal d c now s))"
  by (simp add: all_in_range_def setMainGoal_def in_range_def Let_def)

lemma addSubGoal_in_range: "all_in_range s \<Longrightarrow> all_in_range (snd (addSubGoal d ps ds now s))"
  by (simp add: all_in_range_def addSubGoal_def in_range_def Let_def)

lemma updateGoalProgress_in_range:
  assumes "all_in_range s" and "0 \<le> p" and "p \<le> 100"
  shows "all_in_range (updateGoalProgress g p c now s)"
proof (cases "findGoal s g")
  case None
  then show ?thesis using assms by (simp add: updateGoalProgress_def)
next
  case (Some goal)
  have "in_range (goal\<lparr>progress := p, lastUpdate := Some now, goal_context := goal_context goal ++ c\<rparr>)"
    using assms by (simp add: in_range_def)
  then have "all_in_range (storeGoal g (goal\<lparr>progress := p, lastUpdate := Some now, goal_context := goal_context goal ++ c\<rparr>) s)"
    using assms(1) by (rule storeGoal_in_range[rotated])
  then show ?thesis using Some
    by (auto simp: updateGoalProgress_def Let_def updateMainGoalProgress_in_range split: option.splits)
qed

lemma recordFailedAttempt_in_range:
  assumes "all_in_range s" shows "all_in_range (recordFailedAttempt g r now s)"
proof (cases "findGoal s g")
  case None
  then show ?thesis using assms by (simp add: recordFailedAttempt_def)
next
  case (Some goal)
  have g: "in_range goal" using assms Some by (rule findGoal_in_range)
  let ?g1 = "goal\<lparr>attempts := attempts goal + 1, lastAttempt := Some (now, r)\<rparr>"
  have s1: "all_in_range (storeGoal g ?g1 s)"
    using assms g by (intro storeGoal_in_range) (simp_all add: in_range_def)
  have "all_in_range (adaptStrategy ?g1 now (storeGoal g ?g1 s))"
    unfolding adaptStrategy_def Let_def
    using s1 g by (intro storeGoal_in_range) (simp_all add: in_range_def all_in_range_def)
  then show ?thesis using Some s1 by (simp add: recordFailedAttempt_def Let_def)
qed

lemma completeGoal_in_range:
  assumes "all_in_range s" shows "all_in_range (completeGoal g now s)"
proof (cases "findGoal s g")
  case None
  then show ?thesis using assms by (simp add: completeGoal_def)
next
  case (Some goal)
  have g: "in_range goal" using assms Some by (rule findGoal_in_range)
  let ?g1 = "goal\<lparr>status := Completed, completedAt := Some now\<rparr>"
  have g1: "in_range ?g1" using g by (simp add: in_range_def)
  have s1: "all_in_range (storeGoal g ?g1 s)" using assms g1 by (rule storeGoal_in_range)
  have "all_in_range ((storeGoal g ?g1 s)\<lparr>completedGoals := completedGoals (storeGoal g ?g1 s) @ [?g1]\<rparr>)"
    using s1 g1 by (simp add: all_in_range_def)
  then show ?thesis using Some
    by (simp add: completeGoal_def Let_def updateMainGoalProgress_in_range remove_if_subgoal_in_range)
qed

lemma failGoal_in_range:
  assumes "all_in_range s" shows "all_in_range (failGoal g r now s)"
proof (cases "findGoal s g")
  case None
  then show ?thesis using assms by (simp add: failGoal_def)
next
  case (Some goal)
  have g: "in_range goal" using assms Some by (rule findGoal_in_range)
  let ?g1 = "goal\<lparr>status := Failed, failedAt := Some now, failureReason := Some r\<rparr>"
  have g1: "in_range ?g1" using g by (simp add: in_range_def)
  have s1: "all_in_range (storeGoal g ?g1 s)" using assms g1 by (rule storeGoal_in_range)
  have "all_in_range ((storeGoal g ?g1 s)\<lparr>failedGoals := failedGoals (storeGoal g ?g1 s) @ [?g1]\<rparr>)"
    using s1 g1 by (simp add: all_in_range_def)
  then show ?thesis using Some
    by (simp add: failGoal_def Let_def updateMainGoalProgress_in_range remove_if_subgoal_in_range)
qed

lemma apply_goal_op_in_range:
  "all_in_range s \<Longrightarrow> progress_arg_ok x \<Longrightarrow> all_in_range (apply_goal_op x s)"
  by (cases x)
     (simp_all add: setMainGoal_in_range addSubGoal_in_range updateGoalProgress_in_range
        recordFailedAttempt_in_range completeGoal_in_range failGoal_in_range)

lemma run_goal_ops_in_range:
  "all_in_range s \<Longrightarrow> list_all progress_arg_ok xs \<Longrightarrow> all_in_range (run_goal_ops xs s)"
  by (induction xs arbitrary: s) (simp_all add: apply_goal_op_in_range)

lemma init_in_range: "all_in_range init_goal_system"
  by (simp add: all_in_range_def init_goal_system_def)

lemma updateGoalProgress_stores:
  assumes "findGoal s g = Some goal"
  shows "map_option progress (findGoal (updateGoalProgress g p c now s) g) = Some p"
proof -
  let ?v = "goal\<lparr>progress := p, lastUpdate := Some now, goal_context := goal_context goal ++ c\<rparr>"
  have "gid ?v = g" using findGoal_gid[OF assms] by simp
  then have f: "findGoal (storeGoal g ?v s) g = Some ?v" by (rule findGoal_storeGoal[OF assms])
  show ?thesis
  proof (cases "mainGoal (storeGoal g ?v s)")
    case None
    then show ?thesis using assms f by (simp add: updateGoalProgress_def Let_def)
  next
    case (Some m)
    then show ?thesis using assms f findGoal_updateMainGoalProgress[OF Some, of g]
      by (auto simp: updateGoalProgress_def Let_def)
  qed
qed

text \<open>
  Claim C3, as stated, fails: nothing in the tracker clamps. \<^verbatim>\<open>updateGoalProgress\<close>
  assigns the argument to the goal as it is, and the mean written to the main goal
  follows it: a subgoal updated with progress 150 stores 150, and the main goal's
  progress becomes 150.
\<close>

theorem progress_not_clamped_counterexample:
  "map progress (subGoals (run_goal_ops clamp_probe_ops init_goal_system)) = [150]
   \<and> map_option progress (mainGoal (run_goal_ops clamp_probe_ops init_goal_system)) = Some 150
   \<and> \<not> all_in_range (run_goal_ops clamp_probe_ops init_goal_system)"
  by (simp add: clamp_probe_ops_def setMainGoal_def addSubGoal_def init_goal_system_def
        updateGoalProgress_def findGoal_def storeGoal_def updateMainGoalProgress_def
        subgoal_contribution_def all_in_range_def in_range_def show_nat.simps digit_char_def Let_def)

text \<open>
  Claim C3, amended. \<^verbatim>\<open>updateGoalProgress\<close> on an existing goal stores the progress
  argument unchanged (no clamping). For every sequence of tracker operations run from
  the empty tracker in which every progress argument of \<^verbatim>\<open>updateGoalProgress\<close> lies
  within 0 and 100, the stored progress of every goal (the main goal, every subgoal,
  every copy in the history lists) lies within 0 and 100.
\<close>

theorem progress_stored_unclamped_and_bounded_by_arguments:
  "(findGoal s g = Some goal \<longrightarrow>
      map_option progress (findGoal (updateGoalProgress g p c now s) g) = Some p)
   \<and> (list_all progress_arg_ok xs \<longrightarrow> all_in_range (run_goal_ops xs init_goal_system))"
  using updateGoalProgress_stores[of s g goal p c now] run_goal_ops_in_range[OF init_in_range, of xs]
  by blast

theorem progress_stored_unclamped_and_bounded_by_arguments_witness:
  "findGoal scenario_tracker ''subgoal_1001_0'' \<noteq> None
   \<and> map_option progress
        (findGoal (updateGoalProgress ''subgoal_1001_0'' 250 Map.empty 1003 scenario_tracker)
           ''subgoal_1001_0'') = Some 250
   \<and> list_all progress_arg_ok bounded_ops
   \<and> all_in_range (run_goal_ops bounded_ops init_goal_system)"
proof -
  obtain goal where f: "findGoal scenario_tracker ''subgoal_1001_0'' = Some goal"
    by (simp add: scenario_tracker_def setMainGoal_def addSubGoal_def init_goal_system_def
        findGoal_def show_nat.simps digit_char_def Let_def)
  have ok: "list_all progress_arg_ok bounded_ops" by (simp add: bounded_ops_def)
  show ?thesis
    using progress_stored_unclamped_and_bounded_by_arguments
            [of scenario_tracker "''subgoal_1001_0''" goal 250 Map.empty 1003 bounded_ops] f ok
    by simp
qed

subsection \<open>Failed attempts and adaptation\<close>

lemma recordFailedAttempt_below:
  assumes "findGoal s g = Some goal" and "attempts goal < 3"
  shows "findGoal (recordFailedAttempt g reason now s) g =
           Some (goal\<lparr>attempts := attempts goal + 1, lastAttempt := Some (now, reason)\<rparr>)"
    and "strategyAdaptations (recordFailedAttempt g reason now s) = strategyAdaptations s"
  using assms findGoal_gid[OF assms(1)]
  by (simp_all add: recordFailedAttempt_def Let_def findGoal_storeGoal)

lemma recordFailedAttempt_above:
  assumes "findGoal s g = Some goal" and "attempts goal \<ge> 3"
  shows "findGoal (recordFailedAttempt g reason now s) g =
           Some (goal\<lparr>attempts := attempts goal + 1, lastAttempt := Some (now, reason),
                      needsStrategyRevision := True, status := NeedsRevision\<rparr>)"
    and "strategyAdaptations (recordFailedAttempt g reason now s) =
           strategyAdaptations s @
             [\<lparr>goalId = g, adaptTimestamp = now, previousAttempts = attempts goal + 1,
               adaptReason = (if reason = [] then ''Too many failures'' else reason)\<rparr>]"
  using assms findGoal_gid[OF assms(1)]
  by (simp_all add: recordFailedAttempt_def adaptStrategy_def Let_def findGoal_storeGoal)

text \<open>
  Claim C8. For a goal the tracker holds with zero recorded attempts: after three calls
  of \<^verbatim>\<open>recordFailedAttempt\<close> on it (any reasons, any clock readings) the adaptation log
  is what it was and the goal's status is unchanged; after the fourth call exactly one
  adaptation record has been appended, it references the goal's id and records 4
  attempts, and the goal's status is \<^verbatim>\<open>needs_revision\<close>.
\<close>

theorem recordFailedAttempt_four_times:
  assumes "findGoal s g = Some goal" and "attempts goal = 0"
  shows "strategyAdaptations (recordFailedAttempt g r3 t3 (recordFailedAttempt g r2 t2 (recordFailedAttempt g r1 t1 s)))
           = strategyAdaptations s
       \<and> map_option status (findGoal (recordFailedAttempt g r3 t3 (recordFailedAttempt g r2 t2 (recordFailedAttempt g r1 t1 s))) g)
           = Some (status goal)
       \<and> (\<exists>a. strategyAdaptations (recordFailedAttempt g r4 t4 (recordFailedAttempt g r3 t3 (recordFailedAttempt g r2 t2 (recordFailedAttempt g r1 t1 s))))
                 = strategyAdaptations s @ [a] \<and> goalId a = g \<and> previousAttempts a = 4)
       \<and> map_option status (findGoal (recordFailedAttempt g r4 t4 (recordFailedAttempt g r3 t3 (recordFailedAttempt g r2 t2 (recordFailedAttempt g r1 t1 s)))) g)
           = Some NeedsRevision"
proof -
  let ?s1 = "recordFailedAttempt g r1 t1 s"
  let ?s2 = "recordFailedAttempt g r2 t2 ?s1"
  let ?s3 = "recordFailedAttempt g r3 t3 ?s2"
  let ?s4 = "recordFailedAttempt g r4 t4 ?s3"
  let ?g1 = "goal\<lparr>attempts := 1, lastAttempt := Some (t1, r1)\<rparr>"
  let ?g2 = "goal\<lparr>attempts := 2, lastAttempt := Some (t2, r2)\<rparr>"
  let ?g3 = "goal\<lparr>attempts := 3, lastAttempt := Some (t3, r3)\<rparr>"
  have f1: "findGoal ?s1 g = Some ?g1" and a1: "strategyAdaptations ?s1 = strategyAdaptations s"
    using recordFailedAttempt_below[OF assms(1), of r1 t1] assms(2) by simp_all
  have f2: "findGoal ?s2 g = Some ?g2" and a2: "strategyAdaptations ?s2 = strategyAdaptations s"
    using recordFailedAttempt_below[OF f1, of r2 t2] a1 by simp_all
  have f3: "findGoal ?s3 g = Some ?g3" and a3: "strategyAdaptations ?s3 = strategyAdaptations s"
    using recordFailedAttempt_below[OF f2, of r3 t3] a2 by simp_all
  have f4: "map_option status (findGoal ?s4 g) = Some NeedsRevision"
    and a4: "strategyAdaptations ?s4 = strategyAdaptations s @
             [\<lparr>goalId = g, adaptTimestamp = t4, previousAttempts = 4,
               adaptReason = (if r4 = [] then ''Too many failures'' else r4)\<rparr>]"
    using recordFailedAttempt_above[OF f3, of r4 t4] a3 by simp_all
  show ?thesis using f3 a3 f4 a4 by simp
qed

theorem recordFailedAttempt_four_times_witness:
  "map_option attempts (findGoal scenario_tracker ''subgoal_1001_0'') = Some 0
   \<and> strategyAdaptations
        (recordFailedAttempt ''subgoal_1001_0'' ''no path'' 2003
          (recordFailedAttempt ''subgoal_1001_0'' ''no tool'' 2002
            (recordFailedAttempt ''subgoal_1001_0'' ''timeout'' 2001 scenario_tracker))) = []
   \<and> (\<exists>a. strategyAdaptations
        (recordFailedAttempt ''subgoal_1001_0'' ''stuck'' 2004
         (recordFailedAttempt ''subgoal_1001_0'' ''no path'' 2003
          (recordFailedAttempt ''subgoal_1001_0'' ''no tool'' 2002
            (recordFailedAttempt ''subgoal_1001_0'' ''timeout'' 2001 scenario_tracker)))) = [a]
         \<and> goalId a = ''subgoal_1001_0'')
   \<and> map_option status (findGoal
        (recordFailedAttempt ''subgoal_1001_0'' ''stuck'' 2004
         (recordFailedAttempt ''subgoal_1001_0'' ''no path'' 2003
          (recordFailedAttempt ''subgoal_1001_0'' ''no tool'' 2002
            (recordFailedAttempt ''subgoal_1001_0'' ''timeout'' 2001 scenario_tracker)))) ''subgoal_1001_0'')
       = Some NeedsRevision"
proof -
  obtain goal where f: "findGoal scenario_tracker ''subgoal_1001_0'' = Some goal" and a: "attempts goal = 0"
    by (simp add: scenario_tracker_def setMainGoal_def addSubGoal_def init_goal_system_def
        findGoal_def show_nat.simps digit_char_def Let_def)
  have e: "strategyAdaptations scenario_tracker = []"
    by (simp add: scenario_tracker_def setMainGoal_def addSubGoal_def init_goal_system_def Let_def)
  show ?thesis
    using recordFailedAttempt_four_times[OF f a, of "''no path''" 2003 "''no tool''" 2002 "''timeout''" 2001 "''stuck''" 2004] f a e
    by auto
qed


section \<open>Properties of the spatial memory\<close>

text \<open>
  Claim C9. Loading the snapshot \<^verbatim>\<open>getJson\<close> takes of a memory bank \<open>m\<close> into any
  memory bank \<open>b\<close> makes the four tables of \<open>b\<close> those of \<open>m\<close> and changes nothing else
  of \<open>b\<close> (the spatial context and the time of its last update stay). For any snapshot,
  a table whose key is absent keeps the value it had, a table whose key is present is
  taken as it comes, and the spatial context and its update time are never touched.
\<close>

theorem getJson_loadJson_roundtrip:
  "loadJson (getJson m) b
     = b\<lparr>locations := locations m, regions := regions m, landmarks := landmarks m, paths := paths m\<rparr>
   \<and> locations (loadJson json b) = (case json_locations json of None \<Rightarrow> locations b | Some t \<Rightarrow> t)
   \<and> regions (loadJson json b) = (case json_regions json of None \<Rightarrow> regions b | Some t \<Rightarrow> t)
   \<and> landmarks (loadJson json b) = (case json_landmarks json of None \<Rightarrow> landmarks b | Some t \<Rightarrow> t)
   \<and> paths (loadJson json b) = (case json_paths json of None \<Rightarrow> paths b | Some t \<Rightarrow> t)
   \<and> spatialContext (loadJson json b) = spatialContext b
   \<and> memory_lastUpdate (loadJson json b) = memory_lastUpdate b"
  by (simp add: loadJson_def getJson_def Let_def split: option.splits)

text \<open>The round trip on two concrete banks, and a snapshot with one key.\<close>

lemma loadJson_concrete:
  "map fst (locations (loadJson (getJson sample_memory) other_memory)) = [''base'']
   \<and> map fst (landmarks (loadJson (getJson sample_memory) other_memory)) = [''tower'']
   \<and> map fst (paths (loadJson (getJson sample_memory) other_memory)) = [''0,64,0->10,64,0'']
   \<and> map_option sc_biome (spatialContext (loadJson (getJson sample_memory) other_memory)) = Some ''desert''
   \<and> map fst (locations (loadJson landmarks_only other_memory)) = [''camp'']
   \<and> map fst (landmarks (loadJson landmarks_only other_memory)) = [''tower'']"
  by (simp add: loadJson_def getJson_def sample_memory_def other_memory_def landmarks_only_def
        updateSpatialContext_def rememberPath_def addLandmark_def defineRegion_def
        rememberPlace_def new_memory_bank_def Let_def)


section \<open>Properties of the sightline analysis\<close>

subsection \<open>One column, one ray\<close>

lemma scan_column_step:
  "y \<le> upper \<Longrightarrow>
     scan_column fl q x z y upper =
       (if solid (q \<lparr>vx = x, vy = y, vz = z\<rparr>) then Some (q \<lparr>vx = x, vy = y, vz = z\<rparr>)
        else scan_column fl q x z (fl (y + 1)) upper)"
  by (subst scan_column.simps) (simp add: solid_def split: option.splits)

lemma scan_column_done: "\<not> y \<le> upper \<Longrightarrow> scan_column fl q x z y upper = Some None"
  by (subst scan_column.simps) simp

lemma scan_column_four_levels:
  assumes "counter_exact fl y"
  shows "scan_column fl q x z (fl (y - 1)) (fl (y + 2)) =
     Some (case find solid (map (\<lambda>k. q \<lparr>vx = x, vy = y - 1 + real k, vz = z\<rparr>) [0, 1, 2, 3]) of
             None \<Rightarrow> None | Some r \<Rightarrow> r)"
proof -
  have r: "fl (y - 1) = y - 1" "fl y = y" "fl (y + 1) = y + 1" "fl (y + 2) = y + 2"
      "fl (y + 3) = y + 3"
    using assms by (simp_all add: counter_exact_def)
  have a: "scan_column fl q x z (y + 3) (y + 2) = Some None" by (rule scan_column_done) simp
  have b: "scan_column fl q x z (y + 2) (y + 2) =
      (if solid (q \<lparr>vx = x, vy = y + 2, vz = z\<rparr>) then Some (q \<lparr>vx = x, vy = y + 2, vz = z\<rparr>)
       else Some None)"
    using scan_column_step[of "y + 2" "y + 2" fl q x z] a r(5) by (simp add: add.commute)
  have c: "scan_column fl q x z (y + 1) (y + 2) =
      (if solid (q \<lparr>vx = x, vy = y + 1, vz = z\<rparr>) then Some (q \<lparr>vx = x, vy = y + 1, vz = z\<rparr>)
       else scan_column fl q x z (y + 2) (y + 2))"
    using scan_column_step[of "y + 1" "y + 2" fl q x z] r(4) by (simp add: add.commute)
  have d: "scan_column fl q x z y (y + 2) =
      (if solid (q \<lparr>vx = x, vy = y, vz = z\<rparr>) then Some (q \<lparr>vx = x, vy = y, vz = z\<rparr>)
       else scan_column fl q x z (y + 1) (y + 2))"
    using scan_column_step[of y "y + 2" fl q x z] r(3) by simp
  have e: "scan_column fl q x z (y - 1) (y + 2) =
      (if solid (q \<lparr>vx = x, vy = y - 1, vz = z\<rparr>) then Some (q \<lparr>vx = x, vy = y - 1, vz = z\<rparr>)
       else scan_column fl q x z y (y + 2))"
    using scan_column_step[of "y - 1" "y + 2" fl q x z] r(2) by simp
  show ?thesis unfolding r(1) r(4) e d c b by (simp add: add.commute)
qed

lemma column_is_slab_hit:
  assumes "counter_exact fl (vy s)"
  shows "scan_column fl q (of_int \<lfloor>fl (vx s + fl (of_int dx * real n))\<rfloor>)
      (of_int \<lfloor>fl (vz s + fl (of_int dz * real n))\<rfloor>) (fl (vy s - 1)) (fl (vy s + 2))
    = Some (slab_hit fl q s dx dz n)"
  unfolding slab_hit_def Let_def scan_column_four_levels[OF assms] ..

lemma ray_march_unfold:
  assumes "counter_exact fl (vy s)"
  shows "ray_march fl q s dx dz d =
     (if d \<le> maxDist then
        (case slab_hit fl q s dx dz d of
           Some b \<Rightarrow>
             Some \<lparr>direction = (dx, dz), clear = False, distance = d,
               obstacle = Some \<lparr>so_block = b, so_position = block_position b, so_distance = d\<rparr>\<rparr>
         | None \<Rightarrow> ray_march fl q s dx dz (d + 1))
      else Some \<lparr>direction = (dx, dz), clear = True, distance = maxDist, obstacle = None\<rparr>)"
  apply (subst ray_march.simps)
  apply (simp only: Let_def column_is_slab_hit[OF assms])
  apply (simp split: option.splits)
  done

lemma ray_march_clear:
  assumes ex: "counter_exact fl (vy s)"
  shows "(\<forall>k. d \<le> k \<and> k \<le> maxDist \<longrightarrow> slab_hit fl q s dx dz k = None) \<Longrightarrow>
     ray_march fl q s dx dz d
       = Some \<lparr>direction = (dx, dz), clear = True, distance = maxDist, obstacle = None\<rparr>"
proof (induction "Suc maxDist - d" arbitrary: d)
  case 0
  then show ?case by (subst ray_march_unfold[OF ex]) simp
next
  case (Suc m)
  then have le: "d \<le> maxDist" by simp
  have none: "slab_hit fl q s dx dz d = None" using Suc.prems le by simp
  have "ray_march fl q s dx dz (d + 1)
      = Some \<lparr>direction = (dx, dz), clear = True, distance = maxDist, obstacle = None\<rparr>"
    using Suc.hyps(1)[of "d + 1"] Suc.hyps(2) Suc.prems by simp
  then show ?case using le none by (subst ray_march_unfold[OF ex]) simp
qed

lemma ray_march_hit:
  assumes ex: "counter_exact fl (vy s)"
  shows "d \<le> n \<Longrightarrow> n \<le> maxDist \<Longrightarrow> slab_hit fl q s dx dz n = Some b \<Longrightarrow>
   (\<forall>k. d \<le> k \<and> k < n \<longrightarrow> slab_hit fl q s dx dz k = None) \<Longrightarrow>
     ray_march fl q s dx dz d =
       Some \<lparr>direction = (dx, dz), clear = False, distance = n,
         obstacle = Some \<lparr>so_block = b, so_position = block_position b, so_distance = n\<rparr>\<rparr>"
proof (induction "n - d" arbitrary: d)
  case 0
  then have "d = n" by simp
  then show ?case using 0 by (subst ray_march_unfold[OF ex]) simp
next
  case (Suc m)
  then have lt: "d < n" and le: "d \<le> maxDist" by simp_all
  have none: "slab_hit fl q s dx dz d = None" using Suc.prems(4) lt by simp
  have "ray_march fl q s dx dz (d + 1) =
       Some \<lparr>direction = (dx, dz), clear = False, distance = n,
         obstacle = Some \<lparr>so_block = b, so_position = block_position b, so_distance = n\<rparr>\<rparr>"
    using Suc.hyps(1)[of "d + 1"] Suc.hyps(2) Suc.prems lt by simp
  then show ?case using le none by (subst ray_march_unfold[OF ex]) simp
qed

lemma ray_march_returns:
  assumes ex: "counter_exact fl (vy s)"
  shows "\<exists>r. ray_march fl q s dx dz d = Some r"
proof (induction "Suc maxDist - d" arbitrary: d)
  case 0
  then show ?case by (subst ray_march_unfold[OF ex]) simp
next
  case (Suc m)
  then have "\<exists>r. ray_march fl q s dx dz (d + 1) = Some r" by simp
  then show ?case by (subst ray_march_unfold[OF ex]) (auto split: option.splits)
qed

lemma checkSightline_returns:
  "counter_exact fl (vy s) \<Longrightarrow> \<exists>r. checkSightline fl q s dx dz = Some r"
  by (simp add: checkSightline_def ray_march_returns)

text \<open>
  Where the rounding makes the counter pass its bound after three rounds, the scan
  queries three heights only.
\<close>

lemma scan_column_three_levels:
  assumes "y1 = fl (y0 + 1)" and "y2 = fl (y1 + 1)"
    and "y0 \<le> upper" and "y1 \<le> upper" and "y2 \<le> upper" and "\<not> fl (y2 + 1) \<le> upper"
  shows "scan_column fl q x z y0 upper =
     Some (case find solid (map (\<lambda>y. q \<lparr>vx = x, vy = y, vz = z\<rparr>) [y0, y1, y2]) of
             None \<Rightarrow> None | Some r \<Rightarrow> r)"
  using scan_column_step[OF assms(3), of fl q x z] scan_column_step[OF assms(4), of fl q x z]
    scan_column_step[OF assms(5), of fl q x z] scan_column_done[OF assms(6), of fl q x z]
    assms(1,2)
  by simp

subsection \<open>The eight directions\<close>

lemma visibilityMap_analyze_directions:
  assumes ex: "counter_exact fl (vy pos)"
  shows "\<exists>sl. analyze_directions fl q pos ds acc = Some sl
     \<and> visibilityMap sl =
         fold (\<lambda>d m. AList.update (direction_key d) (the (checkSightline fl q pos (fst d) (snd d))) m)
           ds (visibilityMap acc)"
proof (induction ds arbitrary: acc)
  case Nil
  then show ?case by simp
next
  case (Cons d ds)
  obtain r where r: "checkSightline fl q pos (fst d) (snd d) = Some r"
    using checkSightline_returns[OF ex] by blast
  show ?case
  proof (cases "clear r")
    case True
    then show ?thesis
      using Cons.IH[of "acc\<lparr>visibilityMap := AList.update (direction_key d) r (visibilityMap acc),
                            clearPaths := clearPaths acc @ [r]\<rparr>"] r
      by (simp add: Let_def)
  next
    case False
    then show ?thesis
      using Cons.IH[of "acc\<lparr>visibilityMap := AList.update (direction_key d) r (visibilityMap acc),
                            sightline_obstacles := sightline_obstacles acc @ [obstacle r]\<rparr>"] r
      by (simp add: Let_def)
  qed
qed

lemma show_int_unit: "show_int 1 = ''1''" "show_int 0 = ''0''" "show_int (-1) = ''-1''"
  by (simp_all add: show_int_def show_nat.simps digit_char_def)

lemma direction_keys:
  "map direction_key directions =
     [''1,0'', ''1,1'', ''0,1'', ''-1,1'', ''-1,0'', ''-1,-1'', ''0,-1'', ''1,-1'']"
  by (simp add: directions_def direction_key_def show_int_unit)

lemma visibilityMap_analyzeSightlines:
  assumes ex: "counter_exact fl (vy pos)"
  shows "\<exists>sl. analyzeSightlines fl q pos = Some sl
     \<and> visibilityMap sl =
         map (\<lambda>d. (direction_key d, the (checkSightline fl q pos (fst d) (snd d)))) directions"
proof -
  obtain sl where sl: "analyzeSightlines fl q pos = Some sl"
    and v: "visibilityMap sl =
         fold (\<lambda>d m. AList.update (direction_key d) (the (checkSightline fl q pos (fst d) (snd d))) m)
           directions []"
    using visibilityMap_analyze_directions[OF ex, of q directions
        "\<lparr>clearPaths = [], sightline_obstacles = [], visibilityMap = []\<rparr>"]
    by (auto simp: analyzeSightlines_def)
  have "fold (\<lambda>d m. AList.update (direction_key d) (the (checkSightline fl q pos (fst d) (snd d))) m)
           directions []
      = map (\<lambda>d. (direction_key d, the (checkSightline fl q pos (fst d) (snd d)))) directions"
    unfolding directions_def by (simp add: direction_key_def show_int_unit)
  then show ?thesis using sl v by simp
qed

subsection \<open>The slab and the first obstacle\<close>

lemma slab_hit_one_stone:
  "slab_hit no_rounding (one_stone cx cy cz) s dx dz n =
     (if \<lfloor>vx s + of_int dx * real n\<rfloor> = cx \<and> \<lfloor>vz s + of_int dz * real n\<rfloor> = cz
         \<and> \<lfloor>vy s\<rfloor> - 1 \<le> cy \<and> cy \<le> \<lfloor>vy s\<rfloor> + 2
      then Some \<lparr>block_name = ''stone'', block_position = \<lparr>vx = of_int cx, vy = of_int cy, vz = of_int cz\<rparr>\<rparr>
      else None)"
  by (auto simp: slab_hit_def one_stone_def solid_def no_rounding_def Let_def)

lemma counter_exact_no_rounding: "counter_exact no_rounding y"
  by (simp add: counter_exact_def no_rounding_def)

text \<open>
  Claim C7, as stated, fails on the height of the slab: a step of the march looks at
  four blocks, not three. The bot stands at the integral height 64, where the loop
  counter is exact; in a world of air with a single stone block one step east, the ray
  returns and is stopped when the stone is at height 63, 64, 65 or 66, and is clear
  when it is at 62 or 67.
\<close>

theorem sightline_slab_height_counterexample:
  "checkSightline no_rounding (one_stone 1 63 0) feet_at_64 1 0 \<noteq> None
   \<and> map_option clear (checkSightline no_rounding (one_stone 1 63 0) feet_at_64 1 0) = Some False
   \<and> map_option clear (checkSightline no_rounding (one_stone 1 64 0) feet_at_64 1 0) = Some False
   \<and> map_option clear (checkSightline no_rounding (one_stone 1 65 0) feet_at_64 1 0) = Some False
   \<and> map_option clear (checkSightline no_rounding (one_stone 1 66 0) feet_at_64 1 0) = Some False
   \<and> map_option clear (checkSightline no_rounding (one_stone 1 62 0) feet_at_64 1 0) = Some True
   \<and> map_option clear (checkSightline no_rounding (one_stone 1 67 0) feet_at_64 1 0) = Some True"
proof -
  have ex: "counter_exact no_rounding (vy feet_at_64)" by (rule counter_exact_no_rounding)
  have hit: "\<And>cy. 63 \<le> cy \<Longrightarrow> cy \<le> 66 \<Longrightarrow>
      map_option clear (checkSightline no_rounding (one_stone 1 cy 0) feet_at_64 1 0) = Some False"
  proof -
    fix cy :: int assume "63 \<le> cy" "cy \<le> 66"
    then have "slab_hit no_rounding (one_stone 1 cy 0) feet_at_64 1 0 1
        = Some \<lparr>block_name = ''stone'', block_position = \<lparr>vx = 1, vy = of_int cy, vz = 0\<rparr>\<rparr>"
      by (simp add: slab_hit_one_stone feet_at_64_def)
    then show "map_option clear (checkSightline no_rounding (one_stone 1 cy 0) feet_at_64 1 0) = Some False"
      using ray_march_hit[OF ex, of 1 1 "one_stone 1 cy 0" 1 0]
      by (simp add: checkSightline_def maxDist_def)
  qed
  have miss: "\<And>cy. cy < 63 \<or> 66 < cy \<Longrightarrow>
      map_option clear (checkSightline no_rounding (one_stone 1 cy 0) feet_at_64 1 0) = Some True"
  proof -
    fix cy :: int assume "cy < 63 \<or> 66 < cy"
    then have "\<forall>k. 1 \<le> k \<and> k \<le> maxDist \<longrightarrow>
        slab_hit no_rounding (one_stone 1 cy 0) feet_at_64 1 0 k = None"
      by (auto simp: slab_hit_one_stone feet_at_64_def)
    then show "map_option clear (checkSightline no_rounding (one_stone 1 cy 0) feet_at_64 1 0) = Some True"
      using ray_march_clear[OF ex, of 1 "one_stone 1 cy 0" 1 0]
      by (simp add: checkSightline_def)
  qed
  show ?thesis using hit[of 63] hit[of 64] hit[of 65] hit[of 66] miss[of 62] miss[of 67] by auto
qed

text \<open>
  Claim C7, amended. At a height of the bot where the counter of the inner loop is
  exact in double arithmetic (every integral height): the analysis returns; there are
  eight directions, each with its own key in the visibility map, and the map holds for
  each the result of \<^verbatim>\<open>checkSightline\<close>. A ray examines, at each unit step from 1 to
  16, the four blocks at heights \<open>y - 1\<close> to \<open>y + 2\<close> of the column (\<open>slab_hit\<close>). If
  no step has a block other than air or cave air, the ray is clear with distance 16 and
  no obstacle. Otherwise the first such step \<open>n\<close> ends the ray: it is not clear, its
  distance is \<open>n\<close>, and its obstacle records the block (the lowest one of the slab that
  is not air), the block's position and \<open>n\<close>. Nothing is said of the heights where the
  rounding changes the counter.
\<close>

theorem checkSightline_four_block_slab:
  assumes ex: "counter_exact fl (vy s)"
  shows "length directions = 8
   \<and> distinct (map direction_key directions)
   \<and> (\<exists>sl. analyzeSightlines fl q s = Some sl
        \<and> (\<forall>d \<in> set directions.
             \<exists>r. checkSightline fl q s (fst d) (snd d) = Some r
                \<and> map_of (visibilityMap sl) (direction_key d) = Some r))
   \<and> ((\<forall>k. 1 \<le> k \<and> k \<le> 16 \<longrightarrow> slab_hit fl q s dx dz k = None) \<longrightarrow>
        checkSightline fl q s dx dz
          = Some \<lparr>direction = (dx, dz), clear = True, distance = 16, obstacle = None\<rparr>)
   \<and> (\<forall>n b. 1 \<le> n \<and> n \<le> 16 \<and> slab_hit fl q s dx dz n = Some b
          \<and> (\<forall>k. 1 \<le> k \<and> k < n \<longrightarrow> slab_hit fl q s dx dz k = None) \<longrightarrow>
        checkSightline fl q s dx dz
          = Some \<lparr>direction = (dx, dz), clear = False, distance = n,
              obstacle = Some \<lparr>so_block = b, so_position = block_position b, so_distance = n\<rparr>\<rparr>)"
proof (intro conjI)
  show "length directions = 8" by (simp add: directions_def)
  show dk: "distinct (map direction_key directions)" by (simp add: direction_keys)
  show "\<exists>sl. analyzeSightlines fl q s = Some sl
        \<and> (\<forall>d \<in> set directions.
             \<exists>r. checkSightline fl q s (fst d) (snd d) = Some r
                \<and> map_of (visibilityMap sl) (direction_key d) = Some r)"
  proof -
    obtain sl where sl: "analyzeSightlines fl q s = Some sl"
      and v: "visibilityMap sl =
         map (\<lambda>d. (direction_key d, the (checkSightline fl q s (fst d) (snd d)))) directions"
      using visibilityMap_analyzeSightlines[OF ex, of q] by blast
    have "\<exists>r. checkSightline fl q s (fst d) (snd d) = Some r
                \<and> map_of (visibilityMap sl) (direction_key d) = Some r"
      if d: "d \<in> set directions" for d
    proof -
      obtain r where r: "checkSightline fl q s (fst d) (snd d) = Some r"
        using checkSightline_returns[OF ex] by blast
      have "distinct (map fst (visibilityMap sl))" using dk by (simp add: v comp_def)
      moreover have "(direction_key d, r) \<in> set (visibilityMap sl)" using d r by (force simp: v)
      ultimately have "map_of (visibilityMap sl) (direction_key d) = Some r"
        by (rule map_of_is_SomeI)
      then show ?thesis using r by simp
    qed
    then show ?thesis using sl by blast
  qed
  show "(\<forall>k. 1 \<le> k \<and> k \<le> 16 \<longrightarrow> slab_hit fl q s dx dz k = None) \<longrightarrow>
        checkSightline fl q s dx dz
          = Some \<lparr>direction = (dx, dz), clear = True, distance = 16, obstacle = None\<rparr>"
    using ray_march_clear[OF ex, of 1 q dx dz] by (simp add: checkSightline_def maxDist_def)
  show "\<forall>n b. 1 \<le> n \<and> n \<le> 16 \<and> slab_hit fl q s dx dz n = Some b
          \<and> (\<forall>k. 1 \<le> k \<and> k < n \<longrightarrow> slab_hit fl q s dx dz k = None) \<longrightarrow>
        checkSightline fl q s dx dz
          = Some \<lparr>direction = (dx, dz), clear = False, distance = n,
              obstacle = Some \<lparr>so_block = b, so_position = block_position b, so_distance = n\<rparr>\<rparr>"
    using ray_march_hit[OF ex, of 1 _ q dx dz] by (simp add: checkSightline_def maxDist_def)
qed

theorem checkSightline_four_block_slab_witness:
  "counter_exact no_rounding (vy feet_at_64)
   \<and> checkSightline no_rounding (one_stone 3 66 0) feet_at_64 1 0
     = Some \<lparr>direction = (1, 0), clear = False, distance = 3,
        obstacle = Some \<lparr>so_block = \<lparr>block_name = ''stone'', block_position = \<lparr>vx = 3, vy = 66, vz = 0\<rparr>\<rparr>,
                         so_position = \<lparr>vx = 3, vy = 66, vz = 0\<rparr>, so_distance = 3\<rparr>\<rparr>
   \<and> checkSightline no_rounding (one_stone 3 66 0) feet_at_64 0 1
     = Some \<lparr>direction = (0, 1), clear = True, distance = 16, obstacle = None\<rparr>
   \<and> (\<exists>sl. analyzeSightlines no_rounding (one_stone 3 66 0) feet_at_64 = Some sl
        \<and> map_of (visibilityMap sl) ''1,0''
            = checkSightline no_rounding (one_stone 3 66 0) feet_at_64 1 0)"
proof -
  have ex: "counter_exact no_rounding (vy feet_at_64)" by (rule counter_exact_no_rounding)
  have h3: "slab_hit no_rounding (one_stone 3 66 0) feet_at_64 1 0 3
      = Some \<lparr>block_name = ''stone'', block_position = \<lparr>vx = 3, vy = 66, vz = 0\<rparr>\<rparr>"
    by (simp add: slab_hit_one_stone feet_at_64_def)
  have before: "\<forall>k. 1 \<le> k \<and> k < 3 \<longrightarrow> slab_hit no_rounding (one_stone 3 66 0) feet_at_64 1 0 k = None"
    by (auto simp: slab_hit_one_stone feet_at_64_def)
  have north: "\<forall>k. 1 \<le> k \<and> k \<le> 16 \<longrightarrow> slab_hit no_rounding (one_stone 3 66 0) feet_at_64 0 1 k = None"
    by (auto simp: slab_hit_one_stone feet_at_64_def)
  have key: "direction_key (1, 0) = ''1,0''" and mem: "(1, 0) \<in> set directions"
    by (simp_all add: direction_key_def show_int_unit directions_def)
  note east = checkSightline_four_block_slab[OF ex, of "one_stone 3 66 0" 1 0]
  note north_all = checkSightline_four_block_slab[OF ex, of "one_stone 3 66 0" 0 1]
  have c1: "checkSightline no_rounding (one_stone 3 66 0) feet_at_64 1 0
     = Some \<lparr>direction = (1, 0), clear = False, distance = 3,
        obstacle = Some \<lparr>so_block = \<lparr>block_name = ''stone'', block_position = \<lparr>vx = 3, vy = 66, vz = 0\<rparr>\<rparr>,
                         so_position = \<lparr>vx = 3, vy = 66, vz = 0\<rparr>, so_distance = 3\<rparr>\<rparr>"
    using east[THEN conjunct2, THEN conjunct2, THEN conjunct2, THEN conjunct2, rule_format,
        of 3 "\<lparr>block_name = ''stone'', block_position = \<lparr>vx = 3, vy = 66, vz = 0\<rparr>\<rparr>"]
      h3 before by simp
  have c2: "checkSightline no_rounding (one_stone 3 66 0) feet_at_64 0 1
     = Some \<lparr>direction = (0, 1), clear = True, distance = 16, obstacle = None\<rparr>"
    using north_all[THEN conjunct2, THEN conjunct2, THEN conjunct2, THEN conjunct1] north by simp
  have c3: "\<exists>sl. analyzeSightlines no_rounding (one_stone 3 66 0) feet_at_64 = Some sl
        \<and> map_of (visibilityMap sl) ''1,0''
            = checkSightline no_rounding (one_stone 3 66 0) feet_at_64 1 0"
    using east[THEN conjunct2, THEN conjunct2, THEN conjunct1] mem key by force
  show ?thesis using ex c1 c2 c3 by simp
qed


section \<open>Properties of the navigator\<close>

subsection \<open>What the progress timer and the checkpoint loop leave alone\<close>

lemma updateNavigationProgress_frame:
  "timers (updateNavigationProgress p s) = timers s"
  "nextTimer (updateNavigationProgress p s) = nextTimer s"
  "currentPath (updateNavigationProgress p s) = currentPath s"
  "pathHistory (updateNavigationProgress p s) = pathHistory s"
  "gotoCalls (updateNavigationProgress p s) = gotoCalls s"
  "memory (updateNavigationProgress p s) = memory s"
  by (simp_all add: updateNavigationProgress_def Let_def)

lemma fold_updateNavigationProgress_frame:
  "timers (fold updateNavigationProgress ps s) = timers s"
  "nextTimer (fold updateNavigationProgress ps s) = nextTimer s"
  "currentPath (fold updateNavigationProgress ps s) = currentPath s"
  "pathHistory (fold updateNavigationProgress ps s) = pathHistory s"
  "gotoCalls (fold updateNavigationProgress ps s) = gotoCalls s"
  "memory (fold updateNavigationProgress ps s) = memory s"
  by (induction ps arbitrary: s) (simp_all add: updateNavigationProgress_frame)

lemma checkpoint_loop_frame:
  "timers (snd (checkpoint_loop cs i sw s)) = timers s
   \<and> nextTimer (snd (checkpoint_loop cs i sw s)) = nextTimer s
   \<and> currentPath (snd (checkpoint_loop cs i sw s)) = currentPath s
   \<and> pathHistory (snd (checkpoint_loop cs i sw s)) = pathHistory s"
proof (induction cs arbitrary: i s)
  case Nil
  then show ?case by simp
next
  case (Cons c cs)
  show ?case
    by (simp add: Let_def Cons.IH fold_updateNavigationProgress_frame split: option.splits)
qed

lemma record_frame:
  "timers (recordSuccessfulPath a b t s) = timers s"
  "nextTimer (recordSuccessfulPath a b t s) = nextTimer s"
  "timers (recordFailedPath a b e t s) = timers s"
  "nextTimer (recordFailedPath a b e t s) = nextTimer s"
  by (simp_all add: recordSuccessfulPath_def recordFailedPath_def Let_def)

lemma executePathWithContext_invalid:
  "waypoints path = [] \<Longrightarrow>
     executePathWithContext path start opts w s = (Inl (Error ''Invalid path provided''), s)"
  by (simp add: executePathWithContext_def)

lemma executePathWithContext_finally:
  assumes "waypoints path \<noteq> []"
  shows "currentPath (snd (executePathWithContext path start opts w s)) = None"
    and "timers (snd (executePathWithContext path start opts w s))
           = filter (\<lambda>t. fst t \<noteq> nextTimer s) (timers s)"
    and "nextTimer (snd (executePathWithContext path start opts w s)) = nextTimer s + 1"
  using assms
  by (simp_all add: executePathWithContext_def Let_def checkpoint_loop_frame record_frame
        split: sum.splits)

subsection \<open>Concrete runs\<close>

lemma sqrt_gt_2: "(2 < sqrt x) = (4 < x)"
  using real_sqrt_less_iff[of 4 x] by simp

lemma plan_straight:
  "planPathWithContext tgt no_options (walk_world (Resolves ''success'' straight_route) sw)
       (new_navigation new_memory_bank) = Inr straight_plan"
  by (simp add: planPathWithContext_def walk_world_def no_options_def checkpointInterval_of_def
        straight_route_def straight_plan_def add_checkpoints.simps identifyObstacles_def
        generateContextualMarkers_def getVisibleLandmarks_def new_navigation_def
        new_memory_bank_def)

lemma run_results:
  "fst (executePathWithContext straight_plan (at_x 0) no_options
          (walk_world (Resolves ''success'' straight_route) arriving)
          (new_navigation new_memory_bank)) = Inr True"
  "fst (executePathWithContext straight_plan (at_x 0) no_options
          (walk_world (Resolves ''success'' straight_route) drifting)
          (new_navigation new_memory_bank)) = Inl (Error ''Navigation verification failed: Off course'')"
  "fst (executePathWithContext straight_plan (at_x 0) no_options
          (walk_world (Resolves ''success'' straight_route) blocked)
          (new_navigation new_memory_bank)) = Inl (Error ''Failed to reach checkpoint: no path'')"
  "fst (executePathWithContext straight_plan (at_x 0) no_options
          (walk_world (Resolves ''success'' straight_route) interrupted)
          (new_navigation new_memory_bank)) = Inl (Error ''Navigation interrupted'')"
  by (simp_all add: executePathWithContext_def straight_plan_def straight_route_def
        walk_world_def arriving_def drifting_def blocked_def interrupted_def calm_step_def
        at_x_def calculateDistance_def sqrt_gt_2 Let_def)

lemma dist_at_x: "calculateDistance (at_x a) (at_x b) = \<bar>a - b\<bar>"
  by (simp add: calculateDistance_def at_x_def Let_def)

lemma straight_plan_fields:
  "waypoints straight_plan \<noteq> []"
  "checkpoints straight_plan = [at_x 0, at_x 5]"
  "last (waypoints straight_plan) = at_x 6"
  by (simp_all add: straight_plan_def straight_route_def)

lemma plan_straight_any:
  "landmarks (memory s) = [] \<Longrightarrow>
     planPathWithContext tgt no_options (walk_world (Resolves ''success'' straight_route) sw) s
       = Inr straight_plan"
  by (simp add: planPathWithContext_def walk_world_def no_options_def checkpointInterval_of_def
        straight_route_def straight_plan_def add_checkpoints.simps identifyObstacles_def
        generateContextualMarkers_def getVisibleLandmarks_def)

lemma progress_at_start:
  "calculatePathProgress (Some straight_plan) (at_x 0) = Num 0"
  by (simp add: calculatePathProgress_def straight_plan_def straight_route_def at_x_def
        calculateDistance_def Let_def)

subsection \<open>Planning failures\<close>

text \<open>
  Claim C4, as stated, fails in one of its two cases: on a status other than
  \<^verbatim>\<open>success\<close> the planning does not raise. With the status \<^verbatim>\<open>timeout\<close> and the two
  waypoints found so far, \<^verbatim>\<open>planPathWithContext\<close> returns the empty plan; the error
  the caller of \<^verbatim>\<open>moveToLocation\<close> gets is \<^verbatim>\<open>Invalid path provided\<close>, thrown by the guard
  of \<^verbatim>\<open>executePathWithContext\<close>, the same one that a \<^verbatim>\<open>success\<close> status with an empty
  route gets.
\<close>

theorem planning_returns_empty_plan_counterexample:
  "planPathWithContext (Point (at_x 6)) no_options
       (walk_world (Resolves ''timeout'' [at_x 0, at_x 1]) arriving)
       (new_navigation new_memory_bank) = Inr empty_path
   \<and> moveToLocation (Point (at_x 6)) no_options
       (walk_world (Resolves ''timeout'' [at_x 0, at_x 1]) arriving)
       (new_navigation new_memory_bank)
     = (Inl (Error ''Invalid path provided''), new_navigation new_memory_bank)
   \<and> planPathWithContext (Point (at_x 6)) no_options
       (walk_world (Resolves ''success'' []) arriving)
       (new_navigation new_memory_bank) = Inr empty_path
   \<and> moveToLocation (Point (at_x 6)) no_options
       (walk_world (Resolves ''success'' []) arriving)
       (new_navigation new_memory_bank)
     = (Inl (Error ''Invalid path provided''), new_navigation new_memory_bank)"
  by (simp add: moveToLocation_def planPathWithContext_def executePathWithContext_def
        empty_path_def walk_world_def no_options_def checkpointInterval_of_def
        add_checkpoints.simps identifyObstacles_def generateContextualMarkers_def
        getVisibleLandmarks_def new_navigation_def new_memory_bank_def)

text \<open>
  Claim C4, amended. When the pathfinder rejects the route request,
  \<^verbatim>\<open>planPathWithContext\<close> raises \<^verbatim>\<open>Failed to plan path: ...\<close> and \<^verbatim>\<open>moveToLocation\<close>
  passes the error to its caller. When the pathfinder resolves to a status other than
  \<^verbatim>\<open>success\<close> (whatever path comes with it), \<^verbatim>\<open>planPathWithContext\<close> does not raise:
  it returns the empty plan, none of the reported waypoints is kept, and
  \<^verbatim>\<open>moveToLocation\<close> raises \<^verbatim>\<open>Invalid path provided\<close> from the guard of
  \<^verbatim>\<open>executePathWithContext\<close>. In both cases the caller of \<^verbatim>\<open>moveToLocation\<close> gets an
  error, never a plan, and the navigator is exactly as it was: no timer, no current
  path, no history entry, no movement.
\<close>

theorem moveToLocation_planning_failure:
  "(getPathTo w (movements_of opts) (goal_of target opts) 100 = Rejects msg \<longrightarrow>
      planPathWithContext target opts w s = Inl (Error (''Failed to plan path: '' @ msg))
      \<and> moveToLocation target opts w s = (Inl (Error (''Failed to plan path: '' @ msg)), s))
   \<and> (getPathTo w (movements_of opts) (goal_of target opts) 100 = Resolves st route
        \<and> st \<noteq> ''success'' \<longrightarrow>
      planPathWithContext target opts w s = Inr empty_path
      \<and> moveToLocation target opts w s = (Inl (Error ''Invalid path provided''), s))"
  by (simp add: moveToLocation_def planPathWithContext_def executePathWithContext_def empty_path_def)

theorem moveToLocation_planning_failure_witness:
  "moveToLocation (Point (at_x 6)) no_options (walk_world (Rejects ''timeout'') arriving)
       (new_navigation new_memory_bank)
     = (Inl (Error ''Failed to plan path: timeout''), new_navigation new_memory_bank)
   \<and> planPathWithContext (Point (at_x 6)) no_options
         (walk_world (Resolves ''partial'' [at_x 0, at_x 1, at_x 2]) arriving)
         (new_navigation new_memory_bank) = Inr empty_path
   \<and> moveToLocation (Point (at_x 6)) no_options
         (walk_world (Resolves ''partial'' [at_x 0, at_x 1, at_x 2]) arriving)
         (new_navigation new_memory_bank)
     = (Inl (Error ''Invalid path provided''), new_navigation new_memory_bank)"
proof -
  have a: "getPathTo (walk_world (Rejects ''timeout'') arriving) (movements_of no_options)
             (goal_of (Point (at_x 6)) no_options) 100 = Rejects ''timeout''"
    by (simp add: walk_world_def)
  have b: "getPathTo (walk_world (Resolves ''partial'' [at_x 0, at_x 1, at_x 2]) arriving)
             (movements_of no_options) (goal_of (Point (at_x 6)) no_options) 100
           = Resolves ''partial'' [at_x 0, at_x 1, at_x 2] \<and> ''partial'' \<noteq> ''success''"
    by (simp add: walk_world_def)
  show ?thesis
    using moveToLocation_planning_failure
            [of "walk_world (Rejects ''timeout'') arriving" no_options "Point (at_x 6)" "''timeout''"
                "new_navigation new_memory_bank", THEN conjunct1, rule_format, OF a]
          moveToLocation_planning_failure
            [of "walk_world (Resolves ''partial'' [at_x 0, at_x 1, at_x 2]) arriving" no_options
                "Point (at_x 6)" _ "new_navigation new_memory_bank" "''partial''"
                "[at_x 0, at_x 1, at_x 2]", THEN conjunct2, rule_format, OF b]
    by simp
qed

subsection \<open>The timer and the current path after execution\<close>

text \<open>
  Claim C5. \<^verbatim>\<open>executePathWithContext\<close> on a path with waypoints, whatever the world
  does during it (success, a failed verification, a rejection by the pathfinder, an
  interrupt): afterwards the current path is cleared, the timer this execution started
  (its handle is the value of \<open>nextTimer\<close> before the call) is not among the active
  timers, and the active timers are those of before without that handle; they are
  exactly those of before when every handle in use is below \<open>nextTimer\<close>, as the
  runtime has it. On a path without waypoints the guard throws before a timer is started
  and the navigator is unchanged.
\<close>

theorem executePathWithContext_releases_timer:
  "(waypoints path = [] \<longrightarrow>
      executePathWithContext path start opts w s = (Inl (Error ''Invalid path provided''), s))
   \<and> (waypoints path \<noteq> [] \<longrightarrow>
        currentPath (snd (executePathWithContext path start opts w s)) = None
        \<and> nextTimer s \<notin> fst ` set (timers (snd (executePathWithContext path start opts w s)))
        \<and> timers (snd (executePathWithContext path start opts w s))
            = filter (\<lambda>t. fst t \<noteq> nextTimer s) (timers s)
        \<and> ((\<forall>t \<in> set (timers s). fst t < nextTimer s) \<longrightarrow>
              timers (snd (executePathWithContext path start opts w s)) = timers s))"
proof (intro conjI impI)
  assume "waypoints path = []"
  then show "executePathWithContext path start opts w s = (Inl (Error ''Invalid path provided''), s)"
    by (rule executePathWithContext_invalid)
next
  assume ne: "waypoints path \<noteq> []"
  show "currentPath (snd (executePathWithContext path start opts w s)) = None"
    by (rule executePathWithContext_finally(1)[OF ne])
  show "nextTimer s \<notin> fst ` set (timers (snd (executePathWithContext path start opts w s)))"
    by (auto simp: executePathWithContext_finally(2)[OF ne])
  show "timers (snd (executePathWithContext path start opts w s))
            = filter (\<lambda>t. fst t \<noteq> nextTimer s) (timers s)"
    by (rule executePathWithContext_finally(2)[OF ne])
  assume wf: "\<forall>t \<in> set (timers s). fst t < nextTimer s"
  then have "filter (\<lambda>t. fst t \<noteq> nextTimer s) (timers s) = timers s"
    by (auto simp: filter_id_conv)
  then show "timers (snd (executePathWithContext path start opts w s)) = timers s"
    by (simp add: executePathWithContext_finally(2)[OF ne])
qed

theorem executePathWithContext_releases_timer_witness:
  "(fst (executePathWithContext straight_plan (at_x 0) no_options
          (walk_world (Resolves ''success'' straight_route) arriving)
          (new_navigation new_memory_bank)) = Inr True
    \<and> currentPath (snd (executePathWithContext straight_plan (at_x 0) no_options
          (walk_world (Resolves ''success'' straight_route) arriving)
          (new_navigation new_memory_bank))) = None
    \<and> timers (snd (executePathWithContext straight_plan (at_x 0) no_options
          (walk_world (Resolves ''success'' straight_route) arriving)
          (new_navigation new_memory_bank))) = [])
   \<and> (fst (executePathWithContext straight_plan (at_x 0) no_options
          (walk_world (Resolves ''success'' straight_route) drifting)
          (new_navigation new_memory_bank)) = Inl (Error ''Navigation verification failed: Off course'')
    \<and> currentPath (snd (executePathWithContext straight_plan (at_x 0) no_options
          (walk_world (Resolves ''success'' straight_route) drifting)
          (new_navigation new_memory_bank))) = None
    \<and> timers (snd (executePathWithContext straight_plan (at_x 0) no_options
          (walk_world (Resolves ''success'' straight_route) drifting)
          (new_navigation new_memory_bank))) = [])
   \<and> (fst (executePathWithContext straight_plan (at_x 0) no_options
          (walk_world (Resolves ''success'' straight_route) blocked)
          (new_navigation new_memory_bank)) = Inl (Error ''Failed to reach checkpoint: no path'')
    \<and> currentPath (snd (executePathWithContext straight_plan (at_x 0) no_options
          (walk_world (Resolves ''success'' straight_route) blocked)
          (new_navigation new_memory_bank))) = None
    \<and> timers (snd (executePathWithContext straight_plan (at_x 0) no_options
          (walk_world (Resolves ''success'' straight_route) blocked)
          (new_navigation new_memory_bank))) = [])
   \<and> (fst (executePathWithContext straight_plan (at_x 0) no_options
          (walk_world (Resolves ''success'' straight_route) interrupted)
          (new_navigation new_memory_bank)) = Inl (Error ''Navigation interrupted'')
    \<and> currentPath (snd (executePathWithContext straight_plan (at_x 0) no_options
          (walk_world (Resolves ''success'' straight_route) interrupted)
          (new_navigation new_memory_bank))) = None
    \<and> timers (snd (executePathWithContext straight_plan (at_x 0) no_options
          (walk_world (Resolves ''success'' straight_route) interrupted)
          (new_navigation new_memory_bank))) = [])
   \<and> executePathWithContext empty_path (at_x 0) no_options
          (walk_world (Resolves ''success'' straight_route) arriving)
          (new_navigation new_memory_bank)
        = (Inl (Error ''Invalid path provided''), new_navigation new_memory_bank)
   \<and> (timers busy_navigation = [(0, 250)] \<and> nextTimer busy_navigation = 1
    \<and> currentPath (snd (executePathWithContext straight_plan (at_x 0) no_options
          (walk_world (Resolves ''success'' straight_route) blocked) busy_navigation)) = None
    \<and> timers (snd (executePathWithContext straight_plan (at_x 0) no_options
          (walk_world (Resolves ''success'' straight_route) blocked) busy_navigation)) = [(0, 250)])"
proof -
  have ne: "waypoints straight_plan \<noteq> []" by (simp add: straight_plan_def straight_route_def)
  have b: "timers busy_navigation = [(0, 250)]" "nextTimer busy_navigation = 1"
    by (simp_all add: busy_navigation_def)
  note busy = executePathWithContext_releases_timer
            [of straight_plan "at_x 0" no_options
                "walk_world (Resolves ''success'' straight_route) blocked" busy_navigation,
             THEN conjunct2, rule_format, OF ne]
  have e: "waypoints empty_path = []" by (simp add: empty_path_def)
  have t0: "timers (new_navigation new_memory_bank) = []" by (simp add: new_navigation_def)
  note released = executePathWithContext_releases_timer
            [of straight_plan "at_x 0" no_options _ "new_navigation new_memory_bank",
             THEN conjunct2, rule_format, OF ne]
  note invalid = executePathWithContext_releases_timer
            [of empty_path "at_x 0" no_options
                "walk_world (Resolves ''success'' straight_route) arriving"
                "new_navigation new_memory_bank", THEN conjunct1, rule_format, OF e]
  show ?thesis
    using released[of "walk_world (Resolves ''success'' straight_route) arriving"]
          released[of "walk_world (Resolves ''success'' straight_route) drifting"]
          released[of "walk_world (Resolves ''success'' straight_route) blocked"]
          released[of "walk_world (Resolves ''success'' straight_route) interrupted"]
          invalid run_results t0 busy b
    by simp
qed

subsection \<open>Stuck detection across navigations\<close>

lemma stuckDetection_record:
  "stuckDetection (recordSuccessfulPath a b t s) = stuckDetection s"
  "stuckDetection (recordFailedPath a b e t s) = stuckDetection s"
  by (simp_all add: recordSuccessfulPath_def recordFailedPath_def Let_def)

lemma checkpoint_loop_no_ticks:
  "\<forall>i. ticks (sw i) = [] \<Longrightarrow>
     stuckDetection (snd (checkpoint_loop cs i sw s)) = stuckDetection s"
proof (induction cs arbitrary: i s)
  case Nil
  then show ?case by simp
next
  case (Cons c cs)
  then show ?case by (simp add: Let_def split: option.splits)
qed

lemma executePathWithContext_no_ticks:
  "\<forall>i. ticks (steps w i) = [] \<Longrightarrow>
     stuckDetection (snd (executePathWithContext path start opts w s)) = stuckDetection s"
  by (simp add: executePathWithContext_def Let_def stuckDetection_record checkpoint_loop_no_ticks
        split: sum.splits)

lemma tick_at_start:
  "currentPath s = Some straight_plan \<Longrightarrow> lastPosition s \<noteq> None \<Longrightarrow>
   lastProgress (stuckDetection s) = Num 0 \<Longrightarrow> stuckTime (stuckDetection s) + 1000 < stuckThreshold (stuckDetection s) \<Longrightarrow>
     updateNavigationProgress (at_x 0) s =
       s\<lparr>stuckDetection := (stuckDetection s)\<lparr>stuckTime := stuckTime (stuckDetection s) + 1000\<rparr>,
         lastPosition := Some (at_x 0)\<rparr>"
  by (simp add: updateNavigationProgress_def progress_at_start Let_def)

lemma stalled_run:
  "stuckDetection after_stalled_run
     = \<lparr>lastProgress = Num 0, stuckTime = 2000, stuckThreshold = 5000\<rparr>"
  "landmarks (memory after_stalled_run) = []"
proof -
  have l: "landmarks (memory (new_navigation new_memory_bank)) = []"
    by (simp add: new_navigation_def new_memory_bank_def)
  show "stuckDetection after_stalled_run
     = \<lparr>lastProgress = Num 0, stuckTime = 2000, stuckThreshold = 5000\<rparr>"
    unfolding after_stalled_run_def moveToLocation_def plan_straight_any[OF l]
    by (simp add: executePathWithContext_def straight_plan_fields walk_world_def stalled_def
          arriving_def calm_step_def updateNavigationProgress_def progress_at_start
          recordFailedPath_def new_navigation_def Let_def)
  show "landmarks (memory after_stalled_run) = []"
    unfolding after_stalled_run_def moveToLocation_def plan_straight_any[OF l]
    by (simp add: executePathWithContext_def straight_plan_fields walk_world_def stalled_def
          arriving_def calm_step_def updateNavigationProgress_frame
          recordFailedPath_def new_navigation_def new_memory_bank_def Let_def)
qed

lemma one_tick_run:
  assumes "landmarks (memory s) = []" and "lastProgress (stuckDetection s) = Num 0"
    and "stuckTime (stuckDetection s) + 1000 < stuckThreshold (stuckDetection s)"
  shows "stuckTime (stuckDetection (snd (moveToLocation (Point (at_x 6)) no_options
            (walk_world (Resolves ''success'' straight_route) one_tick) s)))
         = stuckTime (stuckDetection s) + 1000"
  using assms(2,3)
  unfolding moveToLocation_def plan_straight_any[OF assms(1)]
  by (simp add: executePathWithContext_def straight_plan_fields walk_world_def one_tick_def
        arriving_def calm_step_def updateNavigationProgress_def progress_at_start dist_at_x
        recordSuccessfulPath_def Let_def)

text \<open>
  Claim C6, as stated, fails: \<^verbatim>\<open>moveToLocation\<close> resets nothing. A first navigation
  during which the bot does not move and the timer fires twice leaves a stuck duration
  of 2000 and a last progress of 0. A second navigation from that navigator during
  which the timer never fires ends with the stuck duration still 2000; one during which
  the timer fires once ends with 3000, where the same navigation on a new navigator
  ends with 1000.
\<close>

theorem stuck_state_carries_over_counterexample:
  "stuckDetection after_stalled_run = \<lparr>lastProgress = Num 0, stuckTime = 2000, stuckThreshold = 5000\<rparr>
   \<and> stuckTime (stuckDetection (snd (moveToLocation (Point (at_x 6)) no_options
          (walk_world (Resolves ''success'' straight_route) arriving) after_stalled_run))) = 2000
   \<and> stuckTime (stuckDetection (snd (moveToLocation (Point (at_x 6)) no_options
          (walk_world (Resolves ''success'' straight_route) one_tick) after_stalled_run))) = 3000
   \<and> stuckTime (stuckDetection (snd (moveToLocation (Point (at_x 6)) no_options
          (walk_world (Resolves ''success'' straight_route) one_tick)
          (new_navigation new_memory_bank)))) = 1000"
proof -
  have a: "stuckTime (stuckDetection (snd (moveToLocation (Point (at_x 6)) no_options
          (walk_world (Resolves ''success'' straight_route) one_tick) after_stalled_run))) = 3000"
    using one_tick_run[of after_stalled_run] by (simp add: stalled_run)
  have b: "stuckTime (stuckDetection (snd (moveToLocation (Point (at_x 6)) no_options
          (walk_world (Resolves ''success'' straight_route) one_tick)
          (new_navigation new_memory_bank)))) = 1000"
    using one_tick_run[of "new_navigation new_memory_bank"]
    by (simp add: new_navigation_def new_memory_bank_def)
  have c: "stuckTime (stuckDetection (snd (moveToLocation (Point (at_x 6)) no_options
          (walk_world (Resolves ''success'' straight_route) arriving) after_stalled_run))) = 2000"
    unfolding moveToLocation_def plan_straight_any[OF stalled_run(2)]
    by (simp add: executePathWithContext_no_ticks walk_world_def arriving_def calm_step_def
          stalled_run(1))
  show ?thesis using a b c stalled_run(1) by simp
qed

text \<open>
  Claim C6, amended. The stuck-detection state belongs to the navigator, not to one
  navigation: it is set when the navigator is constructed (last progress 0, stuck
  duration 0, threshold 5000), and \<^verbatim>\<open>moveToLocation\<close> does not reset it. A call of
  \<^verbatim>\<open>moveToLocation\<close> during which no callback of the progress timer runs leaves the
  stuck-detection state exactly as the previous navigation left it.
\<close>

theorem moveToLocation_keeps_stuck_state:
  "stuckDetection (new_navigation m) = \<lparr>lastProgress = Num 0, stuckTime = 0, stuckThreshold = 5000\<rparr>
   \<and> ((\<forall>i. ticks (steps w i) = []) \<longrightarrow>
        stuckDetection (snd (moveToLocation target opts w s)) = stuckDetection s)"
  by (simp add: new_navigation_def moveToLocation_def executePathWithContext_no_ticks
        split: sum.splits)

theorem moveToLocation_keeps_stuck_state_witness:
  "(\<forall>i. ticks (steps (walk_world (Resolves ''success'' straight_route) arriving) i) = [])
   \<and> stuckDetection (snd (moveToLocation (Point (at_x 6)) no_options
        (walk_world (Resolves ''success'' straight_route) arriving) after_stalled_run))
      = \<lparr>lastProgress = Num 0, stuckTime = 2000, stuckThreshold = 5000\<rparr>
   \<and> stuckDetection (new_navigation new_memory_bank)
      = \<lparr>lastProgress = Num 0, stuckTime = 0, stuckThreshold = 5000\<rparr>"
proof -
  have q: "\<forall>i. ticks (steps (walk_world (Resolves ''success'' straight_route) arriving) i) = []"
    by (simp add: walk_world_def arriving_def calm_step_def)
  show ?thesis
    using moveToLocation_keeps_stuck_state
            [of new_memory_bank "walk_world (Resolves ''success'' straight_route) arriving"
                "Point (at_x 6)" no_options after_stalled_run]
          q stalled_run(1)
    by simp
qed

subsection \<open>Checkpoints\<close>

















end

